theory Spec2Isabelle
  imports Main
begin

section \<open>Data model\<close>

text \<open>
  The livestock registry keeps six collections of documents: cattle, users (farmers),
  admins, transfer requests, identification requests and notifications. An ObjectId is
  a natural number, a Date is its number of milliseconds since the epoch, and a status
  is the string the JavaScript stores (the schemas declare their statuses as string
  enums).

  Fields that no transition reads or writes (breed, age, colour, tag number, medical
  history, pin code, profile data of users and admins) are left out of the records.
\<close>

type_synonym oid = nat
type_synonym date = int

record image =
  filename :: string
  path :: string

record images =
  muzzle :: "image list"
  face :: "image list"
  left :: "image list"
  right :: "image list"
  fullBodyLeft :: "image list"
  fullBodyRight :: "image list"

text \<open>
  The Cattle schema of the three-tier workflow (src/models/Cattle.js, second document):
  \<open>status\<close> is the lifecycle status, \<open>verification_status\<close> is
  \<open>verification.status\<close>, and the other \<open>verification.*\<close> and
  \<open>location.*\<close> paths keep their last component as field name.
\<close>

record cattle =
  cattleId :: "string option"
  owner :: oid
  images :: images
  status :: string
  verification_status :: string
  reviewedByRegionalAdmin :: "oid option"
  regionalReviewedAt :: "date option"
  regionalAdminAction :: "string option"
  regionalDenialReason :: "string option"
  verifiedBy :: "oid option"
  verifiedAt :: "date option"
  rejectionReason :: "string option"
  submittedAt :: date
  turnaroundDeadline :: "date option"
  forwardedToMAdminAt :: "date option"
  temporaryId :: "string option"
  location_state :: string
  location_district :: string
  transferHistory :: "oid list"
  archivedAt :: "date option"
  archivedBy :: "oid option"
  identificationHistory :: "(date \<times> oid \<times> string) list"

text \<open>
  A farmer account (User schema): the address the cattle location is copied from, and
  \<open>user_cattle\<close>, the array \<open>cattle\<close> of the ids of the cattle the user holds.
\<close>

record user =
  address_state :: string
  address_district :: string
  user_cattle :: "oid list"

text \<open>
  TransferRequest schema. \<open>transfer_id\<close> is \<open>_id\<close>, \<open>transfer_cattle\<close> the reference
  \<open>cattle\<close>, \<open>transfer_status\<close> the field \<open>status\<close>; \<open>respondedAt\<close> and
  \<open>response_message\<close> are the two fields of \<open>buyerResponse\<close>.
\<close>

record transferRequest =
  transfer_id :: oid
  transfer_cattle :: oid
  fromOwner :: oid
  toOwner :: oid
  transferType :: string
  transfer_status :: string
  respondedAt :: "date option"
  response_message :: "string option"
  transfer_expiresAt :: date
  transfer_cancelledBy :: "oid option"
  transfer_cancelledAt :: "date option"
  transfer_cancellationReason :: "string option"
  completedAt :: "date option"

text \<open>
  IdentificationRequest schema, with \<open>request_\<close>, \<open>processing_\<close> and \<open>result_\<close> for the
  top-level, \<open>processing.*\<close> and \<open>result.*\<close> paths; \<open>request_id\<close> is \<open>_id\<close> and
  \<open>requestId\<close> the generated, uniquely indexed string.
\<close>

record identificationRequest =
  request_id :: oid
  requestId :: "string option"
  request_user :: oid
  request_status :: string
  processing_startedAt :: "date option"
  processing_completedAt :: "date option"
  processing_processedBy :: "oid option"
  processing_timeTaken :: "int option"
  result_found :: bool
  result_cattle :: "oid option"
  result_cattleId :: "string option"
  result_confidence :: "nat option"
  result_message :: "string option"
  result_identifiedAt :: "date option"
  adminNotes :: "string option"
  request_expiresAt :: date

text \<open>
  Admin schema: the role, \<open>assignedRegion.state\<close> (the empty string when unset), the
  two account flags, and the six counters of \<open>statistics\<close>, which keep their last
  component as field name. \<open>req.user\<close> of an admin route is such a document.
\<close>

record admin =
  admin_id :: oid
  role :: string
  assignedRegion_state :: string
  isActive :: bool
  isApproved :: bool
  totalVerifications :: int
  pendingVerifications :: int
  forwardedToMAdmin :: int
  approvedCattle :: int
  rejectedCattle :: int
  deniedByRegionalAdmin :: int

text \<open>
  Notification schema: the recipient and its model, the \<open>type\<close>
  (\<open>notification_type\<close>), the title, the priority and the related cattle. The
  \<open>message\<close> is in every call a template text that is never empty, and the other
  paths are optional and unvalidated; they are left out.
\<close>

record notification =
  recipient :: oid
  recipientModel :: string
  notification_type :: string
  title :: string
  priority :: string
  relatedCattle :: "oid option"

text \<open>
  The database. Cattle and users are looked up by \<open>_id\<close> only, so each of these
  collections is a map from ids to documents. Transfer requests and admins are also
  queried by content and identification requests carry a unique index on
  \<open>requestId\<close>, so each of these collections, like the notifications, is the list of
  its documents, in insertion order.
\<close>

record db =
  cattles :: "oid \<rightharpoonup> cattle"
  users :: "oid \<rightharpoonup> user"
  admins :: "admin list"
  transfers :: "transferRequest list"
  requests :: "identificationRequest list"
  notifications :: "notification list"

subsection \<open>Errors and responses\<close>

text \<open>
  A handler answers with an HTTP status and a message
  (\<open>res.status(s).json({ success, message, ... })\<close>). What a handler or a model method
  throws is an \<open>exn\<close>: a plain \<open>Error\<close> with its message, a \<open>TypeError\<close> (a property
  read on \<open>null\<close>), a Mongoose \<open>ValidationError\<close> with its messages, a duplicate-key error
  of a unique index (code 11000) with the indexed field, or the rejection of a database
  call for any other reason (\<open>MongoError\<close>). \<open>asyncHandler\<close> passes a thrown error to
  \<open>errorHandler\<close>, which answers 400 for a validation or duplicate-key error and 500
  otherwise, with the error's message (the engine's wording for a \<open>TypeError\<close> and the
  driver's for a \<open>MongoError\<close> are abbreviated here).
\<close>

type_synonym response = "nat \<times> string"

datatype exn = Error string | TypeError | ValidationError "string list" | DuplicateKey string | MongoError

fun join :: "string list \<Rightarrow> string" where
  "join [] = []"
| "join [m] = m"
| "join (m # ms) = m @ '', '' @ join ms"

fun errorHandler :: "exn \<Rightarrow> response" where
  "errorHandler (Error m) = (500, m)"
| "errorHandler TypeError = (500, ''Cannot read properties of null'')"
| "errorHandler (ValidationError ms) = (400, join ms)"
| "errorHandler (DuplicateKey field) =
     (400, field @ '' already exists. Please use a different '' @ field @ ''.'')"
| "errorHandler MongoError = (500, ''database error'')"

definition asyncHandler :: "(exn + response) \<times> 'a \<Rightarrow> response \<times> 'a" where
  "asyncHandler r = (case fst r of Inl e \<Rightarrow> (errorHandler e, snd r) | Inr resp \<Rightarrow> (resp, snd r))"

text \<open>
  The messages of Mongoose's two built-in validators: a string outside the \<open>enum\<close> of
  its path, and an empty value at a \<open>required\<close> path.
\<close>

definition enum_error :: "string list \<Rightarrow> string \<Rightarrow> string \<Rightarrow> string list" where
  "enum_error enum p v =
     (if v \<in> set enum then []
      else [''`'' @ v @ ''` is not a valid enum value for path `'' @ p @ ''`.''])"

definition required_error :: "string \<Rightarrow> string \<Rightarrow> string list" where
  "required_error p v = (if v = [] then [''Path `'' @ p @ ''` is required.''] else [])"

section \<open>Admins and notifications\<close>

text \<open>
  \<open>Admin.findById\<close>, the query \<open>Admin.find({ role, 'assignedRegion.state', isActive:
  true, isApproved: true })\<close> that three handlers make, and \<open>admin.save()\<close> of a stored
  document. The first pre-save hook of the Admin schema rejects a \<open>regional_admin\<close> or
  \<open>m_admin\<close> without an assigned state; the second only acts on a modified password.
\<close>

definition Admin_findById :: "oid \<Rightarrow> db \<Rightarrow> admin option" where
  "Admin_findById aid d = find (\<lambda>a. admin_id a = aid) (admins d)"

definition Admin_find :: "string \<Rightarrow> string \<Rightarrow> db \<Rightarrow> admin list" where
  "Admin_find r st d =
     filter (\<lambda>a. role a = r \<and> assignedRegion_state a = st \<and> isActive a \<and> isApproved a)
       (admins d)"

definition Admin_save :: "admin \<Rightarrow> db \<Rightarrow> (exn + admin) \<times> db" where
  "Admin_save a d =
     (if (role a = ''regional_admin'' \<or> role a = ''m_admin'') \<and> assignedRegion_state a = []
      then (Inl (Error (role a @ '' must have an assigned region'')), d)
      else (Inr a, d\<lparr>admins := map (\<lambda>x. if admin_id x = admin_id a then a else x) (admins d)\<rparr>))"

text \<open>
  \<open>Notification.create\<close>: Mongoose validates the document against the schema, whose
  \<open>recipientModel\<close>, \<open>type\<close> and \<open>priority\<close> are string enums and whose \<open>title\<close> is
  required, and inserts it only when no path fails. The schema has no hook.
\<close>

definition recipientModel_enum :: "string list" where
  "recipientModel_enum = [''User'', ''Admin'']"

definition notification_type_enum :: "string list" where
  "notification_type_enum =
     [''cattle_registered'', ''cattle_approved'', ''cattle_rejected'',
      ''verification_reminder'', ''verification_overdue'',
      ''transfer_request_received'', ''transfer_request_accepted'',
      ''transfer_request_rejected'', ''transfer_request_cancelled'',
      ''admin_approved'', ''admin_rejected'', ''account_activated'', ''account_deactivated'']"

definition notification_priority_enum :: "string list" where
  "notification_priority_enum = [''low'', ''medium'', ''high'', ''urgent'']"

definition Notification_validate :: "notification \<Rightarrow> string list" where
  "Notification_validate n =
     enum_error recipientModel_enum ''recipientModel'' (recipientModel n)
     @ enum_error notification_type_enum ''type'' (notification_type n)
     @ required_error ''title'' (title n)
     @ enum_error notification_priority_enum ''priority'' (priority n)"

definition Notification_create :: "notification \<Rightarrow> db \<Rightarrow> (exn + notification) \<times> db" where
  "Notification_create n d =
     (case Notification_validate n of
        [] \<Rightarrow> (Inr n, d\<lparr>notifications := notifications d @ [n]\<rparr>)
      | e # es \<Rightarrow> (Inl (ValidationError (e # es)), d))"

text \<open>
  The blocks the handlers are made of. \<open>updateStatistics\<close> is
  \<open>const a = await Admin.findById(id); a.statistics... = ...; await a.save()\<close>: reading
  \<open>a.statistics\<close> of \<open>null\<close> is a \<open>TypeError\<close>. \<open>notifyAdmins\<close> is the loop
  \<open>for (const a of admins) { await Notification.create({...}); a.statistics... = ...;
  await a.save() }\<close>, where \<open>mk\<close> evaluates the object literal (which can throw) and
  \<open>upd\<close> is the assignment to the counters; the first error leaves the loop and the
  handler. \<open>notifyOwner\<close> is \<open>await Notification.create({ recipient: cattle.owner._id,
  ... })\<close> for the \<open>populated\<close> owner of a cattle, \<open>None\<close> when the owner's account does
  not exist: then \<open>cattle.owner\<close> is \<open>null\<close> and the literal throws a \<open>TypeError\<close>.
\<close>

definition updateStatistics :: "oid \<Rightarrow> (admin \<Rightarrow> admin) \<Rightarrow> db \<Rightarrow> (exn + admin) \<times> db" where
  "updateStatistics aid f d =
     (case Admin_findById aid d of
        None \<Rightarrow> (Inl TypeError, d)
      | Some a \<Rightarrow> Admin_save (f a) d)"

fun notifyAdmins ::
  "admin list \<Rightarrow> (admin \<Rightarrow> exn + notification) \<Rightarrow> (admin \<Rightarrow> admin) \<Rightarrow> db \<Rightarrow> (exn + unit) \<times> db" where
  "notifyAdmins [] mk upd d = (Inr (), d)"
| "notifyAdmins (a # as) mk upd d =
     (case mk a of
        Inl e \<Rightarrow> (Inl e, d)
      | Inr n \<Rightarrow>
          (case Notification_create n d of
             (Inl e, d1) \<Rightarrow> (Inl e, d1)
           | (Inr _, d1) \<Rightarrow>
               (case Admin_save (upd a) d1 of
                  (Inl e, d2) \<Rightarrow> (Inl e, d2)
                | (Inr _, d2) \<Rightarrow> notifyAdmins as mk upd d2)))"

definition notifyOwner :: "user option \<Rightarrow> notification \<Rightarrow> db \<Rightarrow> (exn + notification) \<times> db" where
  "notifyOwner populated n d =
     (case populated of
        None \<Rightarrow> (Inl TypeError, d)
      | Some account \<Rightarrow> Notification_create n d)"

section \<open>Cattle methods\<close>

text \<open>
  The schema methods assign fields of the document and save it. \<open>new Date()\<close> is the
  argument \<open>now\<close>. The second schema has no pre-save hook that can reject an existing
  document (both hooks act on \<open>isNew\<close> documents only), so a method is the function
  from the document to the document that is saved.
\<close>

definition forwardToMAdmin :: "oid \<Rightarrow> date \<Rightarrow> cattle \<Rightarrow> cattle" where
  "forwardToMAdmin regionalAdminId now c =
     c\<lparr>verification_status := ''forwarded_to_m_admin'',
       reviewedByRegionalAdmin := Some regionalAdminId,
       regionalReviewedAt := Some now,
       regionalAdminAction := Some ''forwarded'',
       forwardedToMAdminAt := Some now\<rparr>"

definition denyByRegionalAdmin :: "oid \<Rightarrow> string \<Rightarrow> date \<Rightarrow> cattle \<Rightarrow> cattle" where
  "denyByRegionalAdmin regionalAdminId reason now c =
     c\<lparr>verification_status := ''denied_by_regional'',
       reviewedByRegionalAdmin := Some regionalAdminId,
       regionalReviewedAt := Some now,
       regionalAdminAction := Some ''denied'',
       regionalDenialReason := Some reason\<rparr>"

definition approve :: "oid \<Rightarrow> date \<Rightarrow> cattle \<Rightarrow> cattle" where
  "approve mAdminId now c =
     c\<lparr>verification_status := ''approved'',
       verifiedBy := Some mAdminId,
       verifiedAt := Some now,
       status := ''active'',
       temporaryId := None\<rparr>"

definition reject :: "oid \<Rightarrow> string \<Rightarrow> date \<Rightarrow> cattle \<Rightarrow> cattle" where
  "reject mAdminId reason now c =
     c\<lparr>verification_status := ''rejected'',
       verifiedBy := Some mAdminId,
       verifiedAt := Some now,
       rejectionReason := Some reason\<rparr>"

definition archive :: "oid \<Rightarrow> date \<Rightarrow> cattle \<Rightarrow> cattle" where
  "archive userId now c =
     c\<lparr>status := ''archive'', archivedAt := Some now, archivedBy := Some userId\<rparr>"

definition restore :: "cattle \<Rightarrow> cattle" where
  "restore c =
     c\<lparr>status := (if verification_status c = ''approved'' then ''active'' else ''transit''),
       archivedAt := None,
       archivedBy := None\<rparr>"

section \<open>Verification handlers\<close>

text \<open>
  Each of the four handlers builds the same kind of query:
  \<open>{ _id, 'verification.status': s }\<close>, to which \<open>'location.state'\<close> is added only when
  the caller has the one role the handler scopes. \<open>state_filter\<close> is \<open>None\<close> when the
  query has no \<open>location.state\<close>.
\<close>

definition Cattle_findOne :: "oid \<Rightarrow> string \<Rightarrow> string option \<Rightarrow> db \<Rightarrow> cattle option" where
  "Cattle_findOne cid vstatus state_filter d =
     (case cattles d cid of
        None \<Rightarrow> None
      | Some c \<Rightarrow>
          if verification_status c = vstatus
             \<and> (case state_filter of None \<Rightarrow> True | Some st \<Rightarrow> location_state c = st)
          then Some c else None)"

text \<open>
  A string of the request body is \<open>None\<close> when the body has no such field. \<open>!reason\<close>
  holds when the reason is absent or empty; the handlers below test it by cases.
\<close>

definition falsy :: "string option \<Rightarrow> bool" where
  "falsy v = (case v of None \<Rightarrow> True | Some x \<Rightarrow> x = [])"

text \<open>
  The handlers of the admin controller; \<open>u\<close> is \<open>req.user\<close>. The query populates the
  owner, which is \<open>users d (owner c)\<close>. After the cattle method has saved the
  transition, the handler updates the caller's counters, creates its notifications and
  answers 200; an error thrown on the way leaves the writes made so far in the
  database. \<open>forwardCattleToMAdmin\<close> notifies the active, approved identifiers of the
  cattle's state and then the owner, with the type \<open>cattle_forwarded_to_m_admin\<close>;
  \<open>denyCattleByRegionalAdmin\<close> notifies the owner with the type
  \<open>cattle_denied_by_regional\<close>.
\<close>

definition forwardCattleToMAdmin :: "admin \<Rightarrow> oid \<Rightarrow> date \<Rightarrow> db \<Rightarrow> response \<times> db" where
  "forwardCattleToMAdmin u cid now d =
     asyncHandler
       (case Cattle_findOne cid ''pending_regional_review''
               (if role u = ''regional_admin'' then Some (assignedRegion_state u) else None) d of
          None \<Rightarrow> (Inr (404, ''Cattle not found or already reviewed''), d)
        | Some c \<Rightarrow>
            (case updateStatistics (admin_id u)
                    (\<lambda>a. a\<lparr>forwardedToMAdmin := forwardedToMAdmin a + 1,
                            pendingVerifications := max 0 (pendingVerifications a - 1)\<rparr>)
                    (d\<lparr>cattles := (cattles d)(cid \<mapsto> forwardToMAdmin (admin_id u) now c)\<rparr>) of
               (Inl e, d1) \<Rightarrow> (Inl e, d1)
             | (Inr _, d1) \<Rightarrow>
                 (case notifyAdmins (Admin_find ''m_admin'' (location_state c) d1)
                         (\<lambda>m. case users d (owner c) of
                                None \<Rightarrow> Inl TypeError
                              | Some account \<Rightarrow>
                                  Inr \<lparr>recipient = admin_id m, recipientModel = ''Admin'',
                                       notification_type = ''cattle_forwarded_to_m_admin'',
                                       title = ''New Cattle for Identification'',
                                       priority = ''high'', relatedCattle = Some cid\<rparr>)
                         (\<lambda>m. m\<lparr>pendingVerifications := pendingVerifications m + 1\<rparr>) d1 of
                    (Inl e, d2) \<Rightarrow> (Inl e, d2)
                  | (Inr _, d2) \<Rightarrow>
                      (case notifyOwner (users d (owner c))
                              \<lparr>recipient = owner c, recipientModel = ''User'',
                               notification_type = ''cattle_forwarded_to_m_admin'',
                               title = ''Cattle Forwarded for Identification'',
                               priority = ''medium'', relatedCattle = Some cid\<rparr> d2 of
                         (Inl e, d3) \<Rightarrow> (Inl e, d3)
                       | (Inr _, d3) \<Rightarrow>
                           (Inr (200, ''Cattle forwarded to M_Admin successfully''), d3)))))"

definition denyCattleByRegionalAdmin :: "admin \<Rightarrow> oid \<Rightarrow> string option \<Rightarrow> date \<Rightarrow> db \<Rightarrow> response \<times> db" where
  "denyCattleByRegionalAdmin u cid reason now d =
     asyncHandler
       (case reason of
          None \<Rightarrow> (Inr (400, ''Denial reason is required''), d)
        | Some r \<Rightarrow>
            if r = [] then (Inr (400, ''Denial reason is required''), d)
            else
              (case Cattle_findOne cid ''pending_regional_review''
                      (if role u = ''regional_admin'' then Some (assignedRegion_state u) else None) d of
                 None \<Rightarrow> (Inr (404, ''Cattle not found or already reviewed''), d)
               | Some c \<Rightarrow>
                   (case updateStatistics (admin_id u)
                           (\<lambda>a. a\<lparr>deniedByRegionalAdmin := deniedByRegionalAdmin a + 1,
                                   pendingVerifications := max 0 (pendingVerifications a - 1)\<rparr>)
                           (d\<lparr>cattles := (cattles d)(cid \<mapsto>
                                denyByRegionalAdmin (admin_id u) r now c)\<rparr>) of
                      (Inl e, d1) \<Rightarrow> (Inl e, d1)
                    | (Inr _, d1) \<Rightarrow>
                        (case notifyOwner (users d (owner c))
                                \<lparr>recipient = owner c, recipientModel = ''User'',
                                 notification_type = ''cattle_denied_by_regional'',
                                 title = ''Cattle Registration Denied'',
                                 priority = ''high'', relatedCattle = Some cid\<rparr> d1 of
                           (Inl e, d2) \<Rightarrow> (Inl e, d2)
                         | (Inr _, d2) \<Rightarrow> (Inr (200, ''Cattle denied successfully''), d2)))))"

text \<open>
  \<open>approveCattleByMAdmin\<close> and \<open>rejectCattleByMAdmin\<close> notify the owner with the types
  \<open>cattle_approved\<close> and \<open>cattle_rejected\<close> and then send an e-mail.
  \<open>emailService.sendEmail\<close> catches whatever the mailer throws and the owner is not
  \<open>null\<close> at that point, so the e-mail changes neither the answer nor the database.
\<close>

definition approveCattleByMAdmin :: "admin \<Rightarrow> oid \<Rightarrow> date \<Rightarrow> db \<Rightarrow> response \<times> db" where
  "approveCattleByMAdmin u cid now d =
     asyncHandler
       (case Cattle_findOne cid ''forwarded_to_m_admin''
               (if role u = ''m_admin'' then Some (assignedRegion_state u) else None) d of
          None \<Rightarrow> (Inr (404, ''Cattle not found or not ready for approval''), d)
        | Some c \<Rightarrow>
            (case updateStatistics (admin_id u)
                    (\<lambda>a. a\<lparr>pendingVerifications := max 0 (pendingVerifications a - 1),
                            totalVerifications := totalVerifications a + 1,
                            approvedCattle := approvedCattle a + 1\<rparr>)
                    (d\<lparr>cattles := (cattles d)(cid \<mapsto> approve (admin_id u) now c)\<rparr>) of
               (Inl e, d1) \<Rightarrow> (Inl e, d1)
             | (Inr _, d1) \<Rightarrow>
                 (case notifyOwner (users d (owner c))
                         \<lparr>recipient = owner c, recipientModel = ''User'',
                          notification_type = ''cattle_approved'',
                          title = ''Cattle Registration Approved'',
                          priority = ''high'', relatedCattle = Some cid\<rparr> d1 of
                    (Inl e, d2) \<Rightarrow> (Inl e, d2)
                  | (Inr _, d2) \<Rightarrow> (Inr (200, ''Cattle approved successfully''), d2))))"

definition rejectCattleByMAdmin :: "admin \<Rightarrow> oid \<Rightarrow> string option \<Rightarrow> date \<Rightarrow> db \<Rightarrow> response \<times> db" where
  "rejectCattleByMAdmin u cid reason now d =
     asyncHandler
       (case reason of
          None \<Rightarrow> (Inr (400, ''Rejection reason is required''), d)
        | Some r \<Rightarrow>
            if r = [] then (Inr (400, ''Rejection reason is required''), d)
            else
              (case Cattle_findOne cid ''forwarded_to_m_admin''
                      (if role u = ''m_admin'' then Some (assignedRegion_state u) else None) d of
                 None \<Rightarrow> (Inr (404, ''Cattle not found or not ready for rejection''), d)
               | Some c \<Rightarrow>
                   (case updateStatistics (admin_id u)
                           (\<lambda>a. a\<lparr>pendingVerifications := max 0 (pendingVerifications a - 1),
                                   totalVerifications := totalVerifications a + 1,
                                   rejectedCattle := rejectedCattle a + 1\<rparr>)
                           (d\<lparr>cattles := (cattles d)(cid \<mapsto> reject (admin_id u) r now c)\<rparr>) of
                      (Inl e, d1) \<Rightarrow> (Inl e, d1)
                    | (Inr _, d1) \<Rightarrow>
                        (case notifyOwner (users d (owner c))
                                \<lparr>recipient = owner c, recipientModel = ''User'',
                                 notification_type = ''cattle_rejected'',
                                 title = ''Cattle Registration Rejected'',
                                 priority = ''high'', relatedCattle = Some cid\<rparr> d1 of
                           (Inl e, d2) \<Rightarrow> (Inl e, d2)
                         | (Inr _, d2) \<Rightarrow> (Inr (200, ''Cattle rejected successfully''), d2)))))"

text \<open>
  \<open>archiveCattle\<close> and \<open>restoreCattle\<close> (cattle controller); \<open>uid\<close> is \<open>req.user._id\<close>.
\<close>

definition archiveCattle :: "oid \<Rightarrow> oid \<Rightarrow> date \<Rightarrow> db \<Rightarrow> response \<times> db" where
  "archiveCattle uid cid now d =
     (case cattles d cid of
        None \<Rightarrow> ((404, ''Cattle not found''), d)
      | Some c \<Rightarrow>
          if owner c \<noteq> uid then ((404, ''Cattle not found''), d)
          else if status c = ''archive'' then ((400, ''Cattle is already archived''), d)
          else ((200, ''Cattle moved to archive''),
                d\<lparr>cattles := (cattles d)(cid \<mapsto> archive uid now c)\<rparr>))"

definition restoreCattle :: "oid \<Rightarrow> oid \<Rightarrow> db \<Rightarrow> response \<times> db" where
  "restoreCattle uid cid d =
     (case cattles d cid of
        None \<Rightarrow> ((404, ''Cattle not found''), d)
      | Some c \<Rightarrow>
          if owner c \<noteq> uid then ((404, ''Cattle not found''), d)
          else if status c \<noteq> ''archive'' then ((400, ''Cattle is not archived''), d)
          else ((200, ''Cattle restored successfully''),
                d\<lparr>cattles := (cattles d)(cid \<mapsto> restore c)\<rparr>))"

text \<open>
  The code reports a failure only through the HTTP status of the response; it has no
  error classes of its own. The four error kinds of the specification are the statuses
  by their standard meaning.
\<close>

datatype error_kind = ValidationError_kind | AuthorizationError_kind | NotFoundError_kind | ConflictError_kind

definition error_kind :: "response \<Rightarrow> error_kind option" where
  "error_kind r =
     (if fst r = 400 then Some ValidationError_kind
      else if fst r = 401 \<or> fst r = 403 then Some AuthorizationError_kind
      else if fst r = 404 then Some NotFoundError_kind
      else if fst r = 409 then Some ConflictError_kind
      else None)"

text \<open>The terminal verification states, and the relation the handlers keep between the two statuses of a cattle.\<close>

definition terminal :: "string \<Rightarrow> bool" where
  "terminal s = (s = ''approved'' \<or> s = ''rejected'' \<or> s = ''denied_by_regional'')"

definition status_consistent :: "cattle \<Rightarrow> bool" where
  "status_consistent c =
     ((status c = ''active'' \<longrightarrow> verification_status c = ''approved'')
      \<and> (verification_status c = ''approved'' \<longrightarrow> status c = ''active'' \<or> status c = ''archive''))"

text \<open>The virtual \<open>totalImages\<close>, and the six counts the registry requires.\<close>

definition totalImages :: "cattle \<Rightarrow> nat" where
  "totalImages c =
     length (muzzle (images c)) + length (face (images c)) + length (left (images c))
     + length (right (images c)) + length (fullBodyLeft (images c))
     + length (fullBodyRight (images c))"

definition stored_images :: "db \<Rightarrow> oid \<Rightarrow> images option" where
  "stored_images d cid = map_option images (cattles d cid)"

definition category_counts :: "cattle \<Rightarrow> nat list" where
  "category_counts c =
     [length (muzzle (images c)), length (face (images c)), length (left (images c)),
      length (right (images c)), length (fullBodyLeft (images c)),
      length (fullBodyRight (images c))]"

definition exact_counts :: "cattle \<Rightarrow> bool" where
  "exact_counts c = (category_counts c = [3, 3, 3, 3, 1, 1] \<and> totalImages c = 14)"

text \<open>
  The invariant of the cattle collection: every stored cattle has the two statuses in
  the relation above and the fourteen images in the required counts.
\<close>

definition registry_invariant :: "db \<Rightarrow> bool" where
  "registry_invariant d =
     (\<forall>cid. case cattles d cid of
              None \<Rightarrow> True
            | Some c \<Rightarrow> status_consistent c \<and> exact_counts c)"

text \<open>
  The older Cattle schema (src/models/Cattle.js, first document) has one more pre-save
  hook, which the workflow schema does not have: a document that is approved and not in
  transit is saved only with exactly these counts. It returns the error, if any.
\<close>

definition imageCountValidation :: "cattle \<Rightarrow> string option" where
  "imageCountValidation c =
     (if status c \<noteq> ''transit'' \<and> verification_status c = ''approved''
      then
        if length (muzzle (images c)) \<noteq> 3 then Some ''Exactly 3 muzzle images are required''
        else if length (face (images c)) \<noteq> 3 then Some ''Exactly 3 face images are required''
        else if length (left (images c)) \<noteq> 3 then Some ''Exactly 3 left side images are required''
        else if length (right (images c)) \<noteq> 3 then Some ''Exactly 3 right side images are required''
        else if length (fullBodyLeft (images c)) \<noteq> 1
             then Some ''Exactly 1 full body left image is required''
        else if length (fullBodyRight (images c)) \<noteq> 1
             then Some ''Exactly 1 full body right image is required''
        else if totalImages c \<noteq> 14 then Some ''Exactly 14 images are required in total''
        else None
      else None)"

section \<open>Generated identifiers\<close>

text \<open>
  \<open>Number.prototype.toString()\<close> of an integer, \<open>String.prototype.slice(-k)\<close> (the last
  \<open>k\<close> characters, the whole string when it is shorter) and \<open>padStart\<close>.
\<close>

definition digit_char :: "nat \<Rightarrow> char" where
  "digit_char n = ''0123456789'' ! (n mod 10)"

fun digits :: "nat \<Rightarrow> string" where
  "digits n = (if n < 10 then [digit_char n] else digits (n div 10) @ [digit_char (n mod 10)])"

declare digits.simps [simp del]

definition Number_toString :: "int \<Rightarrow> string" where
  "Number_toString i = (if i < 0 then CHR ''-'' # digits (nat (- i)) else digits (nat i))"

definition slice_last :: "nat \<Rightarrow> string \<Rightarrow> string" where
  "slice_last k s = drop (length s - k) s"

definition padStart :: "nat \<Rightarrow> char \<Rightarrow> string \<Rightarrow> string" where
  "padStart n c s = replicate (n - length s) c @ s"

text \<open>
  \<open>Math.floor(Math.random() + 10000)\<close>. \<open>Math.random()\<close> returns a double in \<open>[0, 1)\<close>;
  in V8 it is \<open>k / 2^53\<close> for an integer \<open>0 \<le> k < 2^53\<close>, and \<open>k\<close> is the argument
  here. The addition is a double addition: the exact sum \<open>10000 + k / 2^53\<close> lies in
  \<open>[2^13, 2^14)\<close>, where the doubles are the multiples of \<open>2^-39\<close>, and it is rounded to
  the nearest of them, ties to the even one. With \<open>n\<close> the exact sum in units of
  \<open>2^-53\<close>, a multiple of \<open>2^-39\<close> is a multiple of \<open>2^14\<close> units; \<open>m\<close> is the rounded sum
  in units of \<open>2^-39\<close>, and \<open>Math.floor\<close> of it is \<open>m div 2^39\<close>.
\<close>

definition floor_random_plus_10000 :: "nat \<Rightarrow> nat" where
  "floor_random_plus_10000 k =
     (let n = 10000 * 2 ^ 53 + k;
          q = n div 2 ^ 14;
          rest = n mod 2 ^ 14;
          m = (if rest < 2 ^ 13 then q
               else if 2 ^ 13 < rest then q + 1
               else if even q then q else q + 1)
      in m div 2 ^ 39)"

text \<open>
  The pre-save hook of the IdentificationRequest schema: a new document without a
  \<open>requestId\<close> gets \<open>IDR-\<close>, the last eight characters of \<open>Date.now()\<close> and the random
  component. The hook of the Cattle schema builds \<open>cattleId\<close> the same way from
  \<open>Math.floor(Math.random() * 10000)\<close>, here the argument \<open>rnd\<close>.
\<close>

definition generateRequestId :: "date \<Rightarrow> nat \<Rightarrow> string" where
  "generateRequestId now k =
     ''IDR-'' @ slice_last 8 (Number_toString now)
       @ padStart 4 (CHR ''0'') (digits (floor_random_plus_10000 k))"

definition generateCattleId :: "date \<Rightarrow> nat \<Rightarrow> string" where
  "generateCattleId now rnd =
     ''C'' @ slice_last 8 (Number_toString now) @ padStart 4 (CHR ''0'') (digits rnd)"

section \<open>Identification requests\<close>

text \<open>
  \<open>IdentificationRequest.create\<close>: the pre-save hook, then the insert, which the unique
  index on \<open>requestId\<close> rejects when a stored request has the same \<open>requestId\<close>.
\<close>

definition presave_requestId :: "date \<Rightarrow> nat \<Rightarrow> identificationRequest \<Rightarrow> identificationRequest" where
  "presave_requestId now k r =
     (case requestId r of
        None \<Rightarrow> r\<lparr>requestId := Some (generateRequestId now k)\<rparr>
      | Some x \<Rightarrow> if x = [] then r\<lparr>requestId := Some (generateRequestId now k)\<rparr> else r)"

definition IdentificationRequest_create ::
  "date \<Rightarrow> nat \<Rightarrow> identificationRequest \<Rightarrow> db \<Rightarrow> (exn + identificationRequest) \<times> db" where
  "IdentificationRequest_create now k doc d =
     (let r = presave_requestId now k doc
      in if requestId r \<in> set (map requestId (requests d))
         then (Inl (DuplicateKey ''requestId''), d)
         else (Inr r, d\<lparr>requests := requests d @ [r]\<rparr>))"

text \<open>
  \<open>createIdentificationRequest\<close>: \<open>rid\<close> is the \<open>_id\<close> of the new document, \<open>uid\<close> is
  \<open>req.user._id\<close> and \<open>has_file\<close> tells whether \<open>req.file\<close> is set. After the insert the
  handler reads \<open>user.address.state\<close> of the requester and notifies each active,
  approved \<open>m_admin\<close> of that state, with the type \<open>identification_request_created\<close> and
  the priority \<open>normal\<close>. The counter the loop then sets,
  \<open>statistics.identificationRequestsPending\<close>, is not a path of the Admin schema, so
  the document it saves is the one it read.
\<close>

definition createIdentificationRequest ::
  "oid \<Rightarrow> date \<Rightarrow> nat \<Rightarrow> oid \<Rightarrow> bool \<Rightarrow> db \<Rightarrow> response \<times> db" where
  "createIdentificationRequest rid now k uid has_file d =
     asyncHandler
       (if \<not> has_file then (Inr (400, ''Please upload an image for identification''), d)
        else
          (case IdentificationRequest_create now k
                  \<lparr>request_id = rid, requestId = None, request_user = uid,
                   request_status = ''pending'',
                   processing_startedAt = None, processing_completedAt = None,
                   processing_processedBy = None, processing_timeTaken = None,
                   result_found = False, result_cattle = None, result_cattleId = None,
                   result_confidence = None, result_message = None,
                   result_identifiedAt = None, adminNotes = None,
                   request_expiresAt = now + 7 * 24 * 60 * 60 * 1000\<rparr> d of
             (Inl e, d') \<Rightarrow> (Inl e, d')
           | (Inr r, d') \<Rightarrow>
               (case users d' uid of
                  None \<Rightarrow> (Inl TypeError, d')
                | Some user \<Rightarrow>
                    (case notifyAdmins (Admin_find ''m_admin'' (address_state user) d')
                            (\<lambda>m. Inr \<lparr>recipient = admin_id m, recipientModel = ''Admin'',
                                       notification_type = ''identification_request_created'',
                                       title = ''New Cattle Identification Request'',
                                       priority = ''normal'', relatedCattle = None\<rparr>)
                            (\<lambda>m. m) d' of
                       (Inl e, d1) \<Rightarrow> (Inl e, d1)
                     | (Inr _, d1) \<Rightarrow>
                         (Inr (201, ''Identification request submitted successfully. Processing may take up to 24 hours.''), d1)))))"

text \<open>
  \<open>methods.completeWithResult\<close>: the result object is the old one overwritten by the
  fields of \<open>resultData\<close>, all five of which the caller passes (as \<open>undefined\<close> or \<open>null\<close>
  where it has no value).
\<close>

definition replaceRequest :: "identificationRequest \<Rightarrow> identificationRequest list \<Rightarrow> identificationRequest list" where
  "replaceRequest r rs = map (\<lambda>x. if request_id x = request_id r then r else x) rs"

definition completeWithResult ::
  "bool \<Rightarrow> oid option \<Rightarrow> string option \<Rightarrow> nat option \<Rightarrow> string \<Rightarrow> date
     \<Rightarrow> identificationRequest \<Rightarrow> identificationRequest" where
  "completeWithResult found cattleRef cattleIdString confidence message now this =
     this\<lparr>request_status := ''completed'',
          processing_completedAt := Some now,
          processing_timeTaken :=
            (case processing_startedAt this of
               None \<Rightarrow> processing_timeTaken this
             | Some started \<Rightarrow> Some ((now - started) div 1000)),
          result_found := found,
          result_cattle := cattleRef,
          result_cattleId := cattleIdString,
          result_confidence := confidence,
          result_message := Some message,
          result_identifiedAt := Some now\<rparr>"

text \<open>
  \<open>completeIdentificationRequest\<close>. \<open>found\<close> is \<open>None\<close> when the body has no \<open>found\<close> (or
  \<open>null\<close>), \<open>bodyCattleId\<close> is the body's \<open>cattleId\<close>, \<open>None\<close> when absent or empty. The
  cattle is looked up only under \<open>found && cattleId\<close>; otherwise the variable \<open>cattle\<close>
  stays \<open>null\<close>.

  \<open>complete_and_notify\<close> is the handler from \<open>request.completeWithResult\<close> on, with
  \<open>cattle\<close> the looked-up document and its id, or \<open>None\<close> for \<open>null\<close>: the request is
  saved as completed (and once more with the admin's notes); the caller's Admin
  document, if it is found, is saved (\<open>updateIdentificationStatistics\<close>: the two
  counters the handler sets before are not paths of the Admin schema, so the document
  is the one it read); the cattle, if any, gets an identification-history entry; and
  the notification is built and created.
  For a found result its text reads \<open>cattle.cattleId\<close>, its recipient is
  \<open>request.user._id\<close> of the populated requester, and its type is
  \<open>identification_found\<close> or \<open>identification_not_found\<close>.
\<close>

definition updateIdentificationStatistics :: "oid \<Rightarrow> db \<Rightarrow> (exn + unit) \<times> db" where
  "updateIdentificationStatistics adminId d =
     (case Admin_findById adminId d of
        None \<Rightarrow> (Inr (), d)
      | Some mAdmin \<Rightarrow>
          (case Admin_save mAdmin d of
             (Inl e, d') \<Rightarrow> (Inl e, d')
           | (Inr _, d') \<Rightarrow> (Inr (), d')))"

definition complete_and_notify ::
  "oid \<Rightarrow> bool \<Rightarrow> (oid \<times> cattle) option \<Rightarrow> string option \<Rightarrow> string option \<Rightarrow> nat option
     \<Rightarrow> date \<Rightarrow> identificationRequest \<Rightarrow> db \<Rightarrow> (exn + response) \<times> db" where
  "complete_and_notify adminId fnd cattle message notes confidence now request d =
     (let default_message = (if fnd then ''Cattle identified successfully''
                             else ''No match found in database'');
          request1 = completeWithResult fnd
                       (case cattle of None \<Rightarrow> None | Some (cid, c) \<Rightarrow> Some cid)
                       (case cattle of None \<Rightarrow> None | Some (cid, c) \<Rightarrow> cattleId c)
                       (case confidence of None \<Rightarrow> None | Some n \<Rightarrow> if n = 0 then None else Some n)
                       (case message of None \<Rightarrow> default_message
                        | Some m \<Rightarrow> if m = [] then default_message else m)
                       now request;
          request2 = (if falsy notes then request1 else request1\<lparr>adminNotes := notes\<rparr>);
          d1 = d\<lparr>requests := replaceRequest request2 (requests d)\<rparr>
      in
        case updateIdentificationStatistics adminId d1 of
          (Inl e, d2) \<Rightarrow> (Inl e, d2)
        | (Inr _, d2) \<Rightarrow>
            (let d3 = (case cattle of
                         None \<Rightarrow> d2
                       | Some (cid, c) \<Rightarrow>
                           d2\<lparr>cattles := (cattles d2)(cid \<mapsto>
                                c\<lparr>identificationHistory :=
                                    identificationHistory c @ [(now, adminId, ''image_scan'')]\<rparr>)\<rparr>)
             in
               if fnd \<and> cattle = None then (Inl TypeError, d3)
               else if users d (request_user request) = None then (Inl TypeError, d3)
               else
                 (case Notification_create
                         \<lparr>recipient = request_user request, recipientModel = ''User'',
                          notification_type = (if fnd then ''identification_found''
                                               else ''identification_not_found''),
                          title = (if fnd then ''Cattle Identified!'' else ''Identification Complete''),
                          priority = ''high'', relatedCattle = None\<rparr> d3 of
                    (Inl e, d4) \<Rightarrow> (Inl e, d4)
                  | (Inr _, d4) \<Rightarrow>
                      (Inr (200, ''Identification request completed successfully''), d4))))"

definition completeIdentificationRequest ::
  "oid \<Rightarrow> oid \<Rightarrow> bool option \<Rightarrow> oid option \<Rightarrow> string option \<Rightarrow> string option \<Rightarrow> nat option
     \<Rightarrow> date \<Rightarrow> db \<Rightarrow> response \<times> db" where
  "completeIdentificationRequest adminId rid found bodyCattleId message notes confidence now d =
     asyncHandler
       (case found of
          None \<Rightarrow> (Inr (400, ''Please specify if cattle was found (true/false)''), d)
        | Some fnd \<Rightarrow>
            (case find (\<lambda>r. request_id r = rid) (requests d) of
               None \<Rightarrow> (Inr (404, ''Identification request not found''), d)
             | Some request \<Rightarrow>
                 if request_status request \<noteq> ''pending'' \<and> request_status request \<noteq> ''processing''
                 then (Inr (400, ''Cannot complete a '' @ request_status request @ '' request''), d)
                 else
                   (case (if fnd then bodyCattleId else None) of
                      None \<Rightarrow>
                        complete_and_notify adminId fnd None message notes confidence now request d
                    | Some cid \<Rightarrow>
                        (case cattles d cid of
                           None \<Rightarrow> (Inr (404, ''Cattle not found with provided ID''), d)
                         | Some c \<Rightarrow>
                             complete_and_notify adminId fnd (Some (cid, c)) message notes
                               confidence now request d))))"

section \<open>Registration\<close>

text \<open>
  \<open>Cattle.create\<close> under the workflow schema. Mongoose first validates the document
  against the schema: the two status enums and the required location paths (the
  required \<open>breed\<close>, \<open>age\<close> and \<open>owner\<close> are not part of the record). Then the pre-save
  hooks run: the id hook, and the hook that sets the turnaround deadline of a new
  document in transit. \<open>env\<close> is
  \<open>parseInt(process.env.VERIFICATION_TURNAROUND_HOURS)\<close>, \<open>None\<close> for \<open>NaN\<close>.
\<close>

definition status_enum :: "string list" where
  "status_enum = [''active'', ''archive'', ''transit'']"

definition verification_status_enum :: "string list" where
  "verification_status_enum =
     [''pending_regional_review'', ''denied_by_regional'', ''forwarded_to_m_admin'',
      ''pending_m_admin_review'', ''approved'', ''rejected'']"

definition Cattle_validate :: "cattle \<Rightarrow> string list" where
  "Cattle_validate c =
     enum_error status_enum ''status'' (status c)
     @ enum_error verification_status_enum ''verification.status'' (verification_status c)
     @ required_error ''location.state'' (location_state c)
     @ required_error ''location.district'' (location_district c)"

definition presave_cattleId :: "date \<Rightarrow> nat \<Rightarrow> cattle \<Rightarrow> cattle" where
  "presave_cattleId now rnd c =
     (if cattleId c = None \<or> cattleId c = Some []
      then c\<lparr>cattleId := Some (generateCattleId now rnd),
             temporaryId := (if status c = ''transit''
                             then Some (''TEMP-'' @ generateCattleId now rnd)
                             else temporaryId c)\<rparr>
      else c)"

definition turnaroundHours :: "int option \<Rightarrow> int" where
  "turnaroundHours env = (case env of None \<Rightarrow> 48 | Some h \<Rightarrow> if h = 0 then 48 else h)"

definition presave_deadline :: "int option \<Rightarrow> cattle \<Rightarrow> cattle" where
  "presave_deadline env c =
     (if status c = ''transit''
      then c\<lparr>turnaroundDeadline := Some (submittedAt c + turnaroundHours env * 60 * 60 * 1000)\<rparr>
      else c)"

definition Cattle_create ::
  "oid \<Rightarrow> date \<Rightarrow> nat \<Rightarrow> int option \<Rightarrow> cattle \<Rightarrow> db \<Rightarrow> (exn + cattle) \<times> db" where
  "Cattle_create cid now rnd env doc d =
     (case Cattle_validate doc of
        [] \<Rightarrow>
          (let c = presave_deadline env (presave_cattleId now rnd doc)
           in (Inr c, d\<lparr>cattles := (cattles d)(cid \<mapsto> c)\<rparr>))
      | e # es \<Rightarrow> (Inl (ValidationError (e # es)), d))"

text \<open>
  The upload middleware of the registration route
  (\<open>userOnly, handleCattleImageUpload, validateCattleRegistration, registerCattle\<close>).
  \<open>files\<close> is \<open>req.files\<close>: \<open>None\<close> when unset, otherwise the uploaded files by field
  name. \<open>validateCattleImages\<close> returns \<open>valid\<close>, \<open>message\<close> and \<open>errors\<close>.
  \<open>handleCattleImageUpload\<close> gets the error of the multer upload, if any, and returns
  its 400 response, or \<open>None\<close> when it calls \<open>next()\<close>.
\<close>

definition uploaded :: "(string \<times> image list) list \<Rightarrow> string \<Rightarrow> image list" where
  "uploaded fs field = (case map_of fs field of None \<Rightarrow> [] | Some xs \<Rightarrow> xs)"

definition count_error :: "string \<Rightarrow> nat \<Rightarrow> nat \<Rightarrow> string list" where
  "count_error label n k =
     (if n \<noteq> k
      then [label @ '': '' @ digits n @ ''/'' @ digits k @ '' (exactly '' @ digits k @ '' required)'']
      else [])"

definition validateCattleImages ::
  "(string \<times> image list) list option \<Rightarrow> bool \<times> string \<times> string list" where
  "validateCattleImages files =
     (case files of
        None \<Rightarrow> (False, ''No images uploaded'', [])
      | Some fs \<Rightarrow>
          (let muzzleCount = length (uploaded fs ''muzzle'');
               faceCount = length (uploaded fs ''face'');
               leftCount = length (uploaded fs ''left'');
               rightCount = length (uploaded fs ''right'');
               fullBodyLeftCount = length (uploaded fs ''fullBodyLeft'');
               fullBodyRightCount = length (uploaded fs ''fullBodyRight'');
               total = muzzleCount + faceCount + leftCount + rightCount
                       + fullBodyLeftCount + fullBodyRightCount;
               errors = count_error ''Muzzle images'' muzzleCount 3
                        @ count_error ''Face images'' faceCount 3
                        @ count_error ''Left side images'' leftCount 3
                        @ count_error ''Right side images'' rightCount 3
                        @ count_error ''Full body left image'' fullBodyLeftCount 1
                        @ count_error ''Full body right image'' fullBodyRightCount 1
                        @ count_error ''Total images'' total 14
           in if errors \<noteq> [] then (False, ''Invalid image count'', errors)
              else (True, ''All images validated successfully'', [])))"

definition handleCattleImageUpload ::
  "string option \<Rightarrow> (string \<times> image list) list option \<Rightarrow> response option" where
  "handleCattleImageUpload err files =
     (case err of
        Some m \<Rightarrow> Some (400, if m = [] then ''Error uploading images'' else m)
      | None \<Rightarrow>
          (case validateCattleImages files of
             (ok, m, errors) \<Rightarrow> if \<not> ok then Some (400, m) else None))"

text \<open>
  \<open>registerCattle\<close> (cattle controller). \<open>cid\<close> is the \<open>_id\<close> of the new document.
  \<open>prepareImages\<close> is the object the handler builds from the files (\<open>req.files.f?.map(...)
  || []\<close> for each field \<open>f\<close>). The document passed to \<open>Cattle.create\<close> names its two
  statuses explicitly. After the insert the handler adds the cattle to the holdings of
  the user and notifies each active, approved \<open>regional_admin\<close> of the user's state.
\<close>

definition prepareImages :: "(string \<times> image list) list \<Rightarrow> images" where
  "prepareImages fs =
     \<lparr>muzzle = uploaded fs ''muzzle'', face = uploaded fs ''face'',
      left = uploaded fs ''left'', right = uploaded fs ''right'',
      fullBodyLeft = uploaded fs ''fullBodyLeft'',
      fullBodyRight = uploaded fs ''fullBodyRight''\<rparr>"

definition registerCattle ::
  "oid \<Rightarrow> date \<Rightarrow> nat \<Rightarrow> int option \<Rightarrow> oid \<Rightarrow> (string \<times> image list) list option \<Rightarrow> db
     \<Rightarrow> response \<times> db" where
  "registerCattle cid now rnd env uid files d =
     asyncHandler
       (case files of
          None \<Rightarrow> (Inr (400, ''Please upload all required images (14 total)''), d)
        | Some fs \<Rightarrow>
            if fs = [] then (Inr (400, ''Please upload all required images (14 total)''), d)
            else
              (case users d uid of
                 None \<Rightarrow> (Inr (404, ''User not found''), d)
               | Some user \<Rightarrow>
                   (case Cattle_create cid now rnd env
                           \<lparr>cattleId = None, owner = uid,
                            images = prepareImages fs,
                            status = ''transit'', verification_status = ''pending'',
                            reviewedByRegionalAdmin = None, regionalReviewedAt = None,
                            regionalAdminAction = None, regionalDenialReason = None,
                            verifiedBy = None, verifiedAt = None, rejectionReason = None,
                            submittedAt = now, turnaroundDeadline = None,
                            forwardedToMAdminAt = None, temporaryId = None,
                            location_state = address_state user,
                            location_district = address_district user,
                            transferHistory = [], archivedAt = None, archivedBy = None,
                            identificationHistory = []\<rparr> d of
                      (Inl e, d') \<Rightarrow> (Inl e, d')
                    | (Inr c, d') \<Rightarrow>
                        (case notifyAdmins (Admin_find ''regional_admin'' (address_state user) d')
                                (\<lambda>a. Inr \<lparr>recipient = admin_id a, recipientModel = ''Admin'',
                                           notification_type = ''cattle_registered'',
                                           title = ''New Cattle Registration'',
                                           priority = ''high'', relatedCattle = Some cid\<rparr>)
                                (\<lambda>a. a\<lparr>pendingVerifications := pendingVerifications a + 1\<rparr>)
                                (d'\<lparr>users := (users d')(uid \<mapsto>
                                     user\<lparr>user_cattle := user_cattle user @ [cid]\<rparr>)\<rparr>) of
                           (Inl e, d1) \<Rightarrow> (Inl e, d1)
                         | (Inr _, d1) \<Rightarrow>
                             (Inr (201, ''Cattle registered successfully. Pending admin verification.''),
                              d1)))))"

section \<open>Transfer workflow\<close>

text \<open>
  \<open>User.findByIdAndUpdate(id, { $pull: { cattle: c } })\<close> removes every occurrence of
  \<open>c\<close> from the user's array, \<open>$addToSet\<close> appends \<open>c\<close> unless it is there; both do
  nothing when no user has the id.
\<close>

definition pull :: "oid \<Rightarrow> oid \<Rightarrow> (oid \<rightharpoonup> user) \<Rightarrow> (oid \<rightharpoonup> user)" where
  "pull uid c us =
     (case us uid of
        None \<Rightarrow> us
      | Some u \<Rightarrow> us(uid \<mapsto> u\<lparr>user_cattle := removeAll c (user_cattle u)\<rparr>))"

definition addToSet :: "oid \<Rightarrow> oid \<Rightarrow> (oid \<rightharpoonup> user) \<Rightarrow> (oid \<rightharpoonup> user)" where
  "addToSet uid c us =
     (case us uid of
        None \<Rightarrow> us
      | Some u \<Rightarrow>
          us(uid \<mapsto> u\<lparr>user_cattle :=
            (if c \<in> set (user_cattle u) then user_cattle u else user_cattle u @ [c])\<rparr>))"

text \<open>
  Saving a transfer request that is already stored replaces the stored document with
  the same \<open>_id\<close>. The schema's pre-save hook rejects a request whose two owners are
  equal.
\<close>

definition replaceTransfer :: "transferRequest \<Rightarrow> transferRequest list \<Rightarrow> transferRequest list" where
  "replaceTransfer t ts = map (\<lambda>u. if transfer_id u = transfer_id t then t else u) ts"

definition saveTransfer :: "bool \<Rightarrow> transferRequest \<Rightarrow> db \<Rightarrow> (exn + transferRequest) \<times> db" where
  "saveTransfer fails t d =
     (if fromOwner t = toOwner t then (Inl (Error ''Cannot transfer cattle to the same owner''), d)
      else if fails then (Inl MongoError, d)
      else (Inr t, d\<lparr>transfers := replaceTransfer t (transfers d)\<rparr>))"

text \<open>
  \<open>transferRequestSchema.methods.accept\<close>. The method makes up to five database calls,
  in this order: 0 \<open>Cattle.findById\<close>, 1 \<open>cattle.save()\<close>, 2 the \<open>$pull\<close> on the old
  owner, 3 the \<open>$addToSet\<close> on the new owner, 4 \<open>this.save()\<close>. Each is awaited and
  written on its own; there is no session or transaction around them. The argument
  \<open>fault\<close> injects a failure: \<open>Some k\<close> makes call \<open>k\<close> reject, \<open>None\<close> lets every
  call succeed. \<open>this\<close> is the document the caller loaded; the result carries the
  database as it is when the method returns or throws.
\<close>

definition accept :: "nat option \<Rightarrow> date \<Rightarrow> transferRequest \<Rightarrow> db \<Rightarrow> (exn + transferRequest) \<times> db" where
  "accept fault now this d =
     (if transfer_status this \<noteq> ''pending''
      then (Inl (Error ''Only pending transfers can be accepted''), d)
      else
        let this1 = this\<lparr>transfer_status := ''accepted'',
                          respondedAt := Some now,
                          completedAt := Some now\<rparr>
        in
          if fault = Some 0 then (Inl MongoError, d)
          else
            (case cattles d (transfer_cattle this) of
               None \<Rightarrow> saveTransfer (fault = Some 4) this1 d
             | Some c \<Rightarrow>
                 let oldOwnerId = owner c;
                     c1 = c\<lparr>transferHistory := transferHistory c @ [transfer_id this],
                            owner := toOwner this\<rparr>
                 in
                   if fault = Some 1 then (Inl MongoError, d)
                   else
                     let d1 = d\<lparr>cattles := (cattles d)(transfer_cattle this \<mapsto> c1)\<rparr> in
                       if fault = Some 2 then (Inl MongoError, d1)
                       else
                         let d2 = d1\<lparr>users := pull oldOwnerId (transfer_cattle this) (users d1)\<rparr> in
                           if fault = Some 3 then (Inl MongoError, d2)
                           else
                             let d3 = d2\<lparr>users := addToSet (toOwner this) (transfer_cattle this) (users d2)\<rparr>
                             in saveTransfer (fault = Some 4) this1 d3))"

text \<open>
  \<open>acceptTransferRequest\<close> (user controller): \<open>uid\<close> is \<open>req.user._id\<close>, \<open>tid\<close> is
  \<open>req.params.id\<close>. The final \<open>populate\<close> only reads.
\<close>

definition acceptTransferRequest :: "nat option \<Rightarrow> date \<Rightarrow> oid \<Rightarrow> oid \<Rightarrow> db \<Rightarrow> response \<times> db" where
  "acceptTransferRequest fault now uid tid d =
     asyncHandler
       (case find (\<lambda>t. transfer_id t = tid \<and> toOwner t = uid \<and> transfer_status t = ''pending'')
                  (transfers d) of
          None \<Rightarrow> (Inr (404, ''Transfer request not found or already processed''), d)
        | Some request \<Rightarrow>
            (case accept fault now request d of
               (Inl e, d') \<Rightarrow> (Inl e, d')
             | (Inr _, d') \<Rightarrow>
                 (Inr (200, ''Transfer request accepted successfully. Cattle ownership transferred.''), d')))"

text \<open>
  \<open>methods.reject\<close> and \<open>methods.cancel\<close> of the transfer request, and the two
  controller functions that call them.
\<close>

definition rejectTransfer :: "string option \<Rightarrow> date \<Rightarrow> transferRequest \<Rightarrow> db \<Rightarrow> (exn + transferRequest) \<times> db" where
  "rejectTransfer message now this d =
     (if transfer_status this \<noteq> ''pending''
      then (Inl (Error ''Only pending transfers can be rejected''), d)
      else saveTransfer False
             (this\<lparr>transfer_status := ''rejected'', respondedAt := Some now,
                    response_message := message\<rparr>) d)"

definition cancelTransfer :: "oid \<Rightarrow> string option \<Rightarrow> date \<Rightarrow> transferRequest \<Rightarrow> db \<Rightarrow> (exn + transferRequest) \<times> db" where
  "cancelTransfer userId reason now this d =
     (if transfer_status this \<noteq> ''pending''
      then (Inl (Error ''Only pending transfers can be cancelled''), d)
      else saveTransfer False
             (this\<lparr>transfer_status := ''cancelled'', transfer_cancelledBy := Some userId,
                    transfer_cancelledAt := Some now,
                    transfer_cancellationReason := reason\<rparr>) d)"

definition rejectTransferRequest :: "string option \<Rightarrow> date \<Rightarrow> oid \<Rightarrow> oid \<Rightarrow> db \<Rightarrow> response \<times> db" where
  "rejectTransferRequest message now uid tid d =
     asyncHandler
       (case find (\<lambda>t. transfer_id t = tid \<and> toOwner t = uid \<and> transfer_status t = ''pending'')
                  (transfers d) of
          None \<Rightarrow> (Inr (404, ''Transfer request not found or already processed''), d)
        | Some request \<Rightarrow>
            (case rejectTransfer message now request d of
               (Inl e, d') \<Rightarrow> (Inl e, d')
             | (Inr _, d') \<Rightarrow> (Inr (200, ''Transfer request rejected''), d')))"

definition cancelTransferRequest :: "string option \<Rightarrow> date \<Rightarrow> oid \<Rightarrow> oid \<Rightarrow> db \<Rightarrow> response \<times> db" where
  "cancelTransferRequest reason now uid tid d =
     asyncHandler
       (case find (\<lambda>t. transfer_id t = tid \<and> fromOwner t = uid \<and> transfer_status t = ''pending'')
                  (transfers d) of
          None \<Rightarrow> (Inr (404, ''Transfer request not found or already processed''), d)
        | Some request \<Rightarrow>
            (case cancelTransfer uid reason now request d of
               (Inl e, d') \<Rightarrow> (Inl e, d')
             | (Inr _, d') \<Rightarrow> (Inr (200, ''Transfer request cancelled''), d')))"

subsection \<open>Initiating a transfer\<close>

text \<open>
  \<open>initiateCattleTransfer\<close> (cattle controller). \<open>uid\<close> is \<open>req.user._id\<close>, \<open>cid\<close> is
  \<open>req.params.id\<close>, \<open>toOwnerId\<close> and \<open>bodyType\<close> (the body's \<open>transferType\<close>, absent
  or a string) come from the body, and \<open>tid\<close> is the \<open>_id\<close> the driver gives the new
  document.

  The handler awaits each database call, so another request can be served between its
  queries and its insert. It is therefore given in two halves. \<open>initiate_queries\<close> are
  the three look-ups (the cattle, active and owned by the caller; the new owner; a
  pending transfer of the cattle); it returns the early response, if any.
  \<open>initiate_create\<close> is \<open>TransferRequest.create\<close> (enum validation of the transfer
  type, the pre-save hook, the insert) and the notification of the new owner, of type
  \<open>transfer_request_received\<close>. No index of the schema is unique, so the insert itself
  never rejects a second pending request. The handler run without interruption is the
  first half followed by the second.
\<close>

definition pendingTransfers :: "db \<Rightarrow> oid \<Rightarrow> transferRequest list" where
  "pendingTransfers d cid =
     filter (\<lambda>t. transfer_cattle t = cid \<and> transfer_status t = ''pending'') (transfers d)"

definition initiate_queries :: "oid \<Rightarrow> oid \<Rightarrow> oid \<Rightarrow> db \<Rightarrow> response option" where
  "initiate_queries uid cid toOwnerId d =
     (case cattles d cid of
        None \<Rightarrow> Some (404, ''Cattle not found or cannot be transferred'')
      | Some c \<Rightarrow>
          if \<not> (owner c = uid \<and> status c = ''active'')
          then Some (404, ''Cattle not found or cannot be transferred'')
          else
            (case users d toOwnerId of
               None \<Rightarrow> Some (404, ''New owner not found'')
             | Some newOwner \<Rightarrow>
                 (case find (\<lambda>t. transfer_cattle t = cid \<and> transfer_status t = ''pending'')
                            (transfers d) of
                    Some existingTransfer \<Rightarrow>
                      Some (400, ''There is already a pending transfer request for this cattle'')
                  | None \<Rightarrow> None)))"

definition transferType_enum :: "string list" where
  "transferType_enum = [''sell'', ''gift'', ''inheritance'', ''other'']"

definition initiate_create :: "oid \<Rightarrow> date \<Rightarrow> oid \<Rightarrow> oid \<Rightarrow> oid \<Rightarrow> string option \<Rightarrow> db \<Rightarrow> (exn + response) \<times> db" where
  "initiate_create tid now uid cid toOwnerId bodyType d =
     (let ty = (case bodyType of None \<Rightarrow> ''sell'' | Some x \<Rightarrow> if x = [] then ''sell'' else x);
          t = \<lparr>transfer_id = tid, transfer_cattle = cid, fromOwner = uid, toOwner = toOwnerId,
               transferType = ty, transfer_status = ''pending'',
               respondedAt = None, response_message = None,
               transfer_expiresAt = now + 30 * 24 * 60 * 60 * 1000,
               transfer_cancelledBy = None, transfer_cancelledAt = None,
               transfer_cancellationReason = None, completedAt = None\<rparr>
      in
        if ty \<notin> set transferType_enum
        then (Inl (ValidationError [''`'' @ ty @ ''` is not a valid enum value for path `transferType`.'']), d)
        else if fromOwner t = toOwner t
        then (Inl (Error ''Cannot transfer cattle to the same owner''), d)
        else
          (case Notification_create
                  \<lparr>recipient = toOwnerId, recipientModel = ''User'',
                   notification_type = ''transfer_request_received'',
                   title = ''New Transfer Request'',
                   priority = ''high'', relatedCattle = Some cid\<rparr>
                  (d\<lparr>transfers := transfers d @ [t]\<rparr>) of
             (Inl e, d1) \<Rightarrow> (Inl e, d1)
           | (Inr _, d1) \<Rightarrow> (Inr (201, ''Transfer request sent successfully''), d1)))"

definition initiateCattleTransfer :: "oid \<Rightarrow> date \<Rightarrow> oid \<Rightarrow> oid \<Rightarrow> oid \<Rightarrow> string option \<Rightarrow> db \<Rightarrow> response \<times> db" where
  "initiateCattleTransfer tid now uid cid toOwnerId bodyType d =
     asyncHandler
       (case initiate_queries uid cid toOwnerId d of
          Some early \<Rightarrow> (Inr early, d)
        | None \<Rightarrow> initiate_create tid now uid cid toOwnerId bodyType d)"

text \<open>
  Two requests \<open>A\<close> and \<open>B\<close> of the same owner for the same cattle, served so that both
  have their queries answered before either inserts: queries of \<open>A\<close>, queries of \<open>B\<close>,
  insert of \<open>A\<close>, insert of \<open>B\<close>. The result is both responses and the final database.
\<close>

definition initiate_interleaved ::
  "oid \<Rightarrow> oid \<Rightarrow> date \<Rightarrow> oid \<Rightarrow> oid \<Rightarrow> oid \<Rightarrow> db \<Rightarrow> response \<times> response \<times> db" where
  "initiate_interleaved tidA tidB now uid cid toOwnerId d =
     (let qA = initiate_queries uid cid toOwnerId d;
          qB = initiate_queries uid cid toOwnerId d;
          (rA, dA) = asyncHandler (case qA of Some early \<Rightarrow> (Inr early, d)
                                   | None \<Rightarrow> initiate_create tidA now uid cid toOwnerId None d);
          (rB, dB) = asyncHandler (case qB of Some early \<Rightarrow> (Inr early, dA)
                                   | None \<Rightarrow> initiate_create tidB now uid cid toOwnerId None dA)
      in (rA, rB, dB))"

text \<open>The invariant of the transfer collection: no cattle has two pending requests.\<close>

definition at_most_one_pending :: "db \<Rightarrow> bool" where
  "at_most_one_pending d = (\<forall>cid. length (pendingTransfers d cid) \<le> 1)"

section \<open>Example data\<close>

text \<open>
  A small database for the concrete evaluations below: two farmers in Ohio, user 1
  holding cattle 10, and transfer request 100 from user 1 to user 2 for that cattle.
  The admins, all active and approved: an identifier and a regional admin of Ohio, a
  regional admin and an identifier of Texas, and a super admin.
\<close>

definition newAdmin :: "oid \<Rightarrow> string \<Rightarrow> string \<Rightarrow> admin" where
  "newAdmin aid r st =
     \<lparr>admin_id = aid, role = r, assignedRegion_state = st, isActive = True, isApproved = True,
      totalVerifications = 0, pendingVerifications = 0, forwardedToMAdmin = 0,
      approvedCattle = 0, rejectedCattle = 0, deniedByRegionalAdmin = 0\<rparr>"

definition identifierOhio :: admin where
  "identifierOhio = newAdmin 5 ''m_admin'' ''Ohio''"

definition regionalOhio :: admin where
  "regionalOhio = newAdmin 6 ''regional_admin'' ''Ohio''"

definition regionalTexas :: admin where
  "regionalTexas = newAdmin 7 ''regional_admin'' ''Texas''"

definition identifierTexas :: admin where
  "identifierTexas = newAdmin 8 ''m_admin'' ''Texas''"

definition superAdmin :: admin where
  "superAdmin = newAdmin 9 ''super_admin'' []"

definition img :: "string \<Rightarrow> image" where
  "img n = \<lparr>filename = n, path = ''uploads/cattle/'' @ n\<rparr>"

definition images14 :: images where
  "images14 =
     \<lparr>muzzle = [img ''m1'', img ''m2'', img ''m3''],
      face = [img ''f1'', img ''f2'', img ''f3''],
      left = [img ''l1'', img ''l2'', img ''l3''],
      right = [img ''r1'', img ''r2'', img ''r3''],
      fullBodyLeft = [img ''bl''],
      fullBodyRight = [img ''br'']\<rparr>"

definition cattle10 :: cattle where
  "cattle10 =
     \<lparr>cattleId = Some ''C123456780042'', owner = 1, images = images14,
      status = ''active'', verification_status = ''approved'',
      reviewedByRegionalAdmin = Some 7, regionalReviewedAt = Some 2000,
      regionalAdminAction = Some ''forwarded'', regionalDenialReason = None,
      verifiedBy = Some 8, verifiedAt = Some 3000, rejectionReason = None,
      submittedAt = 1000, turnaroundDeadline = Some 172801000,
      forwardedToMAdminAt = Some 2000, temporaryId = None,
      location_state = ''Ohio'', location_district = ''Franklin'',
      transferHistory = [], archivedAt = None, archivedBy = None,
      identificationHistory = []\<rparr>"

definition transfer100 :: transferRequest where
  "transfer100 =
     \<lparr>transfer_id = 100, transfer_cattle = 10, fromOwner = 1, toOwner = 2,
      transferType = ''sell'', transfer_status = ''pending'',
      respondedAt = None, response_message = None, transfer_expiresAt = 2592004000,
      transfer_cancelledBy = None, transfer_cancelledAt = None,
      transfer_cancellationReason = None, completedAt = None\<rparr>"

definition user1 :: user where
  "user1 = \<lparr>address_state = ''Ohio'', address_district = ''Franklin'', user_cattle = [10]\<rparr>"

definition user2 :: user where
  "user2 = \<lparr>address_state = ''Ohio'', address_district = ''Summit'', user_cattle = []\<rparr>"

definition db0 :: db where
  "db0 =
     \<lparr>cattles = [10 \<mapsto> cattle10],
      users = [1 \<mapsto> user1, 2 \<mapsto> user2],
      admins = [identifierOhio, regionalOhio, regionalTexas, identifierTexas, superAdmin],
      transfers = [transfer100],
      requests = [],
      notifications = []\<rparr>"

text \<open>
  Cattle 11 is registered in Ohio and awaits regional review; cattle 12 has been
  forwarded.
\<close>

definition cattle11 :: cattle where
  "cattle11 =
     cattle10\<lparr>cattleId := Some ''C123456780043'', status := ''transit'',
              verification_status := ''pending_regional_review'',
              reviewedByRegionalAdmin := None, regionalReviewedAt := None,
              regionalAdminAction := None, verifiedBy := None, verifiedAt := None,
              forwardedToMAdminAt := None, temporaryId := Some ''TEMP-C123456780043''\<rparr>"

definition cattle12 :: cattle where
  "cattle12 =
     cattle10\<lparr>cattleId := Some ''C123456780044'', status := ''transit'',
              verification_status := ''forwarded_to_m_admin'',
              verifiedBy := None, verifiedAt := None,
              temporaryId := Some ''TEMP-C123456780044''\<rparr>"

definition db2 :: db where
  "db2 = db0\<lparr>cattles := [10 \<mapsto> cattle10, 11 \<mapsto> cattle11, 12 \<mapsto> cattle12]\<rparr>"

text \<open>
  Identification request 200 of user 1 is pending; \<open>files14\<close> is an upload with the
  fourteen images of a registration.
\<close>

definition request200 :: identificationRequest where
  "request200 =
     \<lparr>request_id = 200, requestId = Some ''IDR-0000012310000'', request_user = 1,
      request_status = ''pending'',
      processing_startedAt = None, processing_completedAt = None,
      processing_processedBy = None, processing_timeTaken = None,
      result_found = False, result_cattle = None, result_cattleId = None,
      result_confidence = None, result_message = None, result_identifiedAt = None,
      adminNotes = None, request_expiresAt = 604808000\<rparr>"

definition db3 :: db where
  "db3 = db0\<lparr>requests := [request200]\<rparr>"

definition files14 :: "(string \<times> image list) list" where
  "files14 =
     [(''muzzle'', muzzle images14), (''face'', face images14), (''left'', left images14),
      (''right'', right images14), (''fullBodyLeft'', fullBodyLeft images14),
      (''fullBodyRight'', fullBodyRight images14)]"

definition db1 :: db where
  "db1 = db0\<lparr>transfers := []\<rparr>"

section \<open>Auxiliary lemmas\<close>

subsection \<open>Awaited calls\<close>

lemma snd_asyncHandler [simp]: "snd (asyncHandler r) = snd r"
  by (cases r) (simp add: asyncHandler_def split: sum.split)

lemma await_kept:
  assumes "\<And>r d'. B = (r, d') \<Longrightarrow> p d' = X"
    and "\<And>x d'. p d' = X \<Longrightarrow> p (snd (f x d')) = X"
  shows "p (snd (case B of (Inl e, d1) \<Rightarrow> (Inl e, d1) | (Inr x, d1) \<Rightarrow> f x d1)) = X"
  using assms by (cases B) (auto split: sum.splits)

lemma Notification_create_frame:
  assumes "Notification_create n d = (r, d')"
  shows "cattles d' = cattles d \<and> users d' = users d \<and> transfers d' = transfers d
       \<and> requests d' = requests d \<and> admins d' = admins d"
  using assms by (auto simp: Notification_create_def split: list.splits)

lemma Admin_save_frame:
  assumes "Admin_save a d = (r, d')"
  shows "cattles d' = cattles d \<and> users d' = users d \<and> transfers d' = transfers d
       \<and> requests d' = requests d \<and> notifications d' = notifications d"
  using assms by (auto simp: Admin_save_def split: if_splits)

lemma updateStatistics_frame:
  assumes "updateStatistics aid f d = (r, d')"
  shows "cattles d' = cattles d \<and> users d' = users d \<and> transfers d' = transfers d
       \<and> requests d' = requests d \<and> notifications d' = notifications d"
  using assms Admin_save_frame
  by (auto simp: updateStatistics_def split: option.splits)

lemma updateIdentificationStatistics_frame:
  assumes "updateIdentificationStatistics aid d = (r, d')"
  shows "cattles d' = cattles d \<and> users d' = users d \<and> transfers d' = transfers d
       \<and> requests d' = requests d \<and> notifications d' = notifications d"
proof (cases "Admin_findById aid d")
  case None
  then show ?thesis using assms by (simp add: updateIdentificationStatistics_def)
next
  case (Some a)
  obtain r1 d1 where s: "Admin_save a d = (r1, d1)" by (cases "Admin_save a d")
  from Admin_save_frame [OF s] assms Some s show ?thesis
    by (cases r1) (simp_all add: updateIdentificationStatistics_def)
qed

lemma notifyAdmins_frame:
  assumes "notifyAdmins as mk upd d = (r, d')"
  shows "cattles d' = cattles d \<and> users d' = users d \<and> transfers d' = transfers d
       \<and> requests d' = requests d"
  using assms
proof (induction as arbitrary: d)
  case Nil
  then show ?case by simp
next
  case (Cons a as)
  show ?case
  proof (cases "mk a")
    case (Inl e)
    then show ?thesis using Cons.prems by simp
  next
    case (Inr n)
    obtain r1 d1 where c: "Notification_create n d = (r1, d1)"
      by (cases "Notification_create n d")
    note f1 = Notification_create_frame [OF c]
    show ?thesis
    proof (cases r1)
      case (Inl e)
      then show ?thesis using Cons.prems Inr c f1 by simp
    next
      case r1: (Inr x)
      obtain r2 d2 where s: "Admin_save (upd a) d1 = (r2, d2)"
        by (cases "Admin_save (upd a) d1")
      note f2 = Admin_save_frame [OF s]
      show ?thesis
      proof (cases r2)
        case (Inl e)
        then show ?thesis using Cons.prems Inr c r1 s f1 f2 by simp
      next
        case r2: (Inr y)
        then have "notifyAdmins as mk upd d2 = (r, d')"
          using Cons.prems Inr c r1 s by simp
        from Cons.IH [OF this] f1 f2 show ?thesis by simp
      qed
    qed
  qed
qed

lemma notifyOwner_frame:
  assumes "notifyOwner populated n d = (r, d')"
  shows "cattles d' = cattles d \<and> users d' = users d \<and> transfers d' = transfers d
       \<and> requests d' = requests d \<and> admins d' = admins d"
  using assms Notification_create_frame
  by (auto simp: notifyOwner_def split: option.splits)

subsection \<open>Pending transfers\<close>

lemma pending_replace_le:
  assumes "transfer_status t \<noteq> ''pending''"
  shows "length (filter (\<lambda>u. transfer_cattle u = cid \<and> transfer_status u = ''pending'') (replaceTransfer t ts))
       \<le> length (filter (\<lambda>u. transfer_cattle u = cid \<and> transfer_status u = ''pending'') ts)"
  using assms by (induction ts) (auto simp: replaceTransfer_def)

lemma saveTransfer_keeps_invariant:
  assumes "at_most_one_pending d" and "transfer_status t \<noteq> ''pending''"
  shows "at_most_one_pending (snd (saveTransfer fails t d))"
proof -
  have "length (pendingTransfers (d\<lparr>transfers := replaceTransfer t (transfers d)\<rparr>) cid) \<le> 1" for cid
    using pending_replace_le [OF assms(2), of cid "transfers d"] assms(1)
    by (simp add: pendingTransfers_def at_most_one_pending_def) (meson le_trans)
  then show ?thesis
    using assms(1) by (simp add: saveTransfer_def at_most_one_pending_def)
qed

lemma pendingTransfers_frame [simp]:
  "pendingTransfers (d\<lparr>cattles := x\<rparr>) = pendingTransfers d"
  "pendingTransfers (d\<lparr>users := y\<rparr>) = pendingTransfers d"
  by (simp_all add: pendingTransfers_def fun_eq_iff)

lemma at_most_one_pending_frame [simp]:
  "at_most_one_pending (d\<lparr>cattles := x\<rparr>) = at_most_one_pending d"
  "at_most_one_pending (d\<lparr>users := y\<rparr>) = at_most_one_pending d"
  by (simp_all add: at_most_one_pending_def)

lemma accept_keeps_invariant:
  assumes "at_most_one_pending d"
  shows "at_most_one_pending (snd (accept fault now this d))"
  using assms
  by (auto simp: accept_def Let_def saveTransfer_keeps_invariant split: option.splits)

lemma acceptTransferRequest_keeps_invariant:
  assumes "at_most_one_pending d"
  shows "at_most_one_pending (snd (acceptTransferRequest fault now uid tid d))"
proof (cases "find (\<lambda>t. transfer_id t = tid \<and> toOwner t = uid \<and> transfer_status t = ''pending'') (transfers d)")
  case None
  then show ?thesis using assms by (simp add: acceptTransferRequest_def asyncHandler_def)
next
  case (Some request)
  obtain r d' where acc: "accept fault now request d = (r, d')"
    by (cases "accept fault now request d")
  then have "at_most_one_pending d'"
    using accept_keeps_invariant [OF assms, of fault now request] by simp
  then show ?thesis using Some acc
    by (cases r) (simp_all add: acceptTransferRequest_def asyncHandler_def)
qed

lemma rejectTransferRequest_keeps_invariant:
  assumes "at_most_one_pending d"
  shows "at_most_one_pending (snd (rejectTransferRequest message now uid tid d))"
proof (cases "find (\<lambda>t. transfer_id t = tid \<and> toOwner t = uid \<and> transfer_status t = ''pending'') (transfers d)")
  case None
  then show ?thesis using assms by (simp add: rejectTransferRequest_def asyncHandler_def)
next
  case (Some request)
  obtain r d' where rej: "rejectTransfer message now request d = (r, d')"
    by (cases "rejectTransfer message now request d")
  then have "at_most_one_pending d'"
    using assms
      saveTransfer_keeps_invariant [OF assms,
        of "request\<lparr>transfer_status := ''rejected'', respondedAt := Some now,
                     response_message := message\<rparr>" False]
    by (auto simp: rejectTransfer_def split: if_splits)
  then show ?thesis using Some rej
    by (cases r) (simp_all add: rejectTransferRequest_def asyncHandler_def)
qed

lemma cancelTransferRequest_keeps_invariant:
  assumes "at_most_one_pending d"
  shows "at_most_one_pending (snd (cancelTransferRequest reason now uid tid d))"
proof (cases "find (\<lambda>t. transfer_id t = tid \<and> fromOwner t = uid \<and> transfer_status t = ''pending'') (transfers d)")
  case None
  then show ?thesis using assms by (simp add: cancelTransferRequest_def asyncHandler_def)
next
  case (Some request)
  obtain r d' where can: "cancelTransfer uid reason now request d = (r, d')"
    by (cases "cancelTransfer uid reason now request d")
  then have "at_most_one_pending d'"
    using assms
      saveTransfer_keeps_invariant [OF assms,
        of "request\<lparr>transfer_status := ''cancelled'', transfer_cancelledBy := Some uid,
                     transfer_cancelledAt := Some now,
                     transfer_cancellationReason := reason\<rparr>" False]
    by (auto simp: cancelTransfer_def split: if_splits)
  then show ?thesis using Some can
    by (cases r) (simp_all add: cancelTransferRequest_def asyncHandler_def)
qed

lemma queries_pass_no_pending:
  assumes "initiate_queries uid cid toOwnerId d = None"
  shows "pendingTransfers d cid = []"
  using assms
  by (auto simp: initiate_queries_def pendingTransfers_def find_None_iff filter_empty_conv
           split: option.splits if_splits)

lemma initiate_create_transfers:
  "transfers (snd (initiate_create tid now uid cid toOwnerId bodyType d)) = transfers d
   \<or> (\<exists>t. transfer_cattle t = cid
          \<and> transfers (snd (initiate_create tid now uid cid toOwnerId bodyType d)) = transfers d @ [t])"
proof -
  define ty where "ty = (case bodyType of None \<Rightarrow> ''sell'' | Some x \<Rightarrow> if x = [] then ''sell'' else x)"
  define t where "t = \<lparr>transfer_id = tid, transfer_cattle = cid, fromOwner = uid, toOwner = toOwnerId,
               transferType = ty, transfer_status = ''pending'',
               respondedAt = None, response_message = None,
               transfer_expiresAt = now + 30 * 24 * 60 * 60 * 1000,
               transfer_cancelledBy = None, transfer_cancelledAt = None,
               transfer_cancellationReason = None, completedAt = None\<rparr>"
  define n where "n = \<lparr>recipient = toOwnerId, recipientModel = ''User'',
                   notification_type = ''transfer_request_received'',
                   title = ''New Transfer Request'',
                   priority = ''high'', relatedCattle = Some cid\<rparr>"
  obtain r d1 where c: "Notification_create n (d\<lparr>transfers := transfers d @ [t]\<rparr>) = (r, d1)"
    by (cases "Notification_create n (d\<lparr>transfers := transfers d @ [t]\<rparr>)")
  from Notification_create_frame [OF c] have tr: "transfers d1 = transfers d @ [t]" by simp
  have cat: "transfer_cattle t = cid" by (simp add: t_def)
  have "snd (initiate_create tid now uid cid toOwnerId bodyType d) = d
      \<or> snd (initiate_create tid now uid cid toOwnerId bodyType d) = d1"
    using c unfolding initiate_create_def Let_def ty_def [symmetric] t_def [symmetric] n_def [symmetric]
    by (cases r) auto
  then show ?thesis using tr cat by auto
qed

lemma initiate_create_keeps_invariant:
  assumes "at_most_one_pending d" and "pendingTransfers d cid = []"
  shows "at_most_one_pending (snd (initiate_create tid now uid cid toOwnerId bodyType d))"
  using initiate_create_transfers [of tid now uid cid toOwnerId bodyType d] assms
  by (auto simp: at_most_one_pending_def pendingTransfers_def)

lemma initiateCattleTransfer_keeps_invariant:
  assumes "at_most_one_pending d"
  shows "at_most_one_pending (snd (initiateCattleTransfer tid now uid cid toOwnerId bodyType d))"
proof (cases "initiate_queries uid cid toOwnerId d")
  case None
  obtain r d' where c: "initiate_create tid now uid cid toOwnerId bodyType d = (r, d')"
    by (cases "initiate_create tid now uid cid toOwnerId bodyType d")
  have "at_most_one_pending d'"
    using initiate_create_keeps_invariant [OF assms queries_pass_no_pending [OF None],
        of tid now uid toOwnerId bodyType] c
    by simp
  then show ?thesis using None c
    by (cases r) (simp_all add: initiateCattleTransfer_def asyncHandler_def)
next
  case (Some early)
  then show ?thesis using assms by (simp add: initiateCattleTransfer_def asyncHandler_def)
qed

lemma initiate_existing_pending:
  assumes "cattles d cid = Some c" and "owner c = uid" and "status c = ''active''"
    and "pendingTransfers d cid \<noteq> []"
  shows "initiateCattleTransfer tid now uid cid toOwnerId bodyType d =
           ((if users d toOwnerId = None then (404, ''New owner not found'')
             else (400, ''There is already a pending transfer request for this cattle'')), d)"
  using assms
  by (auto simp: initiateCattleTransfer_def initiate_queries_def asyncHandler_def
        pendingTransfers_def find_None_iff filter_empty_conv split: option.splits)

lemma db0_at_most_one_pending: "at_most_one_pending db0"
  by (simp add: at_most_one_pending_def pendingTransfers_def db0_def transfer100_def)

subsection \<open>The cattle collection under the handlers\<close>

lemma registry_invariant_cong:
  assumes "cattles d' = cattles d"
  shows "registry_invariant d' = registry_invariant d"
  using assms by (simp add: registry_invariant_def)

lemma stored_images_cong:
  assumes "cattles d' = cattles d"
  shows "stored_images d' = stored_images d"
  using assms by (simp add: stored_images_def fun_eq_iff)

lemma stored_invariant:
  assumes "registry_invariant d" and "cattles d cid = Some c"
  shows "status_consistent c \<and> exact_counts c"
  using assms unfolding registry_invariant_def by (metis option.simps(5))

lemma exact_counts_images:
  assumes "images c' = images c"
  shows "exact_counts c' = exact_counts c"
  using assms by (simp add: exact_counts_def category_counts_def totalImages_def)

lemma registry_invariant_update:
  assumes "registry_invariant d" and "status_consistent c'" and "exact_counts c'"
    and "cattles d' = (cattles d)(cid \<mapsto> c')"
  shows "registry_invariant d'"
  using assms by (simp add: registry_invariant_def)

lemma stored_images_update:
  assumes "cattles d cid = Some c" and "images c' = images c"
    and "cattles d' = (cattles d)(cid \<mapsto> c')"
  shows "stored_images d' = stored_images d"
  using assms by (auto simp: stored_images_def fun_eq_iff)

lemma findOne_Some:
  assumes "Cattle_findOne cid s f d = Some c"
  shows "cattles d cid = Some c \<and> verification_status c = s"
  using assms by (auto simp: Cattle_findOne_def split: option.splits if_splits)

lemma findOne_terminal:
  assumes "cattles d cid = Some c" and "terminal (verification_status c)"
  shows "Cattle_findOne cid ''pending_regional_review'' f d = None"
    and "Cattle_findOne cid ''forwarded_to_m_admin'' f d = None"
  using assms by (auto simp: Cattle_findOne_def terminal_def)

lemma transition_kept:
  assumes inv: "registry_invariant d"
    and cat: "cattles d' = (case Cattle_findOne cid s f d of
                              None \<Rightarrow> cattles d
                            | Some c \<Rightarrow> (cattles d)(cid \<mapsto> g c))"
    and st: "\<And>c. verification_status c = s \<Longrightarrow> status_consistent c \<Longrightarrow> status_consistent (g c)"
    and im: "\<And>c. images (g c) = images c"
  shows "registry_invariant d' \<and> stored_images d' = stored_images d"
proof (cases "Cattle_findOne cid s f d")
  case None
  then have same: "cattles d' = cattles d" using cat by simp
  show ?thesis
    using inv registry_invariant_cong [OF same] stored_images_cong [OF same] by simp
next
  case (Some c)
  from findOne_Some [OF Some] have c: "cattles d cid = Some c" and s: "verification_status c = s"
    by simp_all
  from stored_invariant [OF inv c] have sc: "status_consistent c" and ec: "exact_counts c"
    by simp_all
  have sg: "status_consistent (g c)" by (rule st [OF s sc])
  have eg: "exact_counts (g c)" using exact_counts_images [OF im, of c] ec by simp
  have upd: "cattles d' = (cattles d)(cid \<mapsto> g c)" using cat Some by simp
  have "registry_invariant d'" by (rule registry_invariant_update [OF inv sg eg upd])
  moreover have "stored_images d' = stored_images d" by (rule stored_images_update [OF c im upd])
  ultimately show ?thesis by simp
qed

lemma forward_cattles:
  "cattles (snd (forwardCattleToMAdmin u cid now d)) =
     (case Cattle_findOne cid ''pending_regional_review''
             (if role u = ''regional_admin'' then Some (assignedRegion_state u) else None) d of
        None \<Rightarrow> cattles d
      | Some c \<Rightarrow> (cattles d)(cid \<mapsto> forwardToMAdmin (admin_id u) now c))"
proof (cases "Cattle_findOne cid ''pending_regional_review''
             (if role u = ''regional_admin'' then Some (assignedRegion_state u) else None) d")
  case None
  then show ?thesis by (simp add: forwardCattleToMAdmin_def)
next
  case (Some c)
  show ?thesis
    unfolding forwardCattleToMAdmin_def snd_asyncHandler Some option.case
    apply (rule await_kept [where p = cattles])
     apply (drule updateStatistics_frame, simp)
    apply (rule await_kept [where p = cattles])
     apply (drule notifyAdmins_frame, simp)
    apply (rule await_kept [where p = cattles])
     apply (drule notifyOwner_frame, simp)
    apply simp
    done
qed

lemma deny_cattles:
  assumes "r \<noteq> []"
  shows "cattles (snd (denyCattleByRegionalAdmin u cid (Some r) now d)) =
     (case Cattle_findOne cid ''pending_regional_review''
             (if role u = ''regional_admin'' then Some (assignedRegion_state u) else None) d of
        None \<Rightarrow> cattles d
      | Some c \<Rightarrow> (cattles d)(cid \<mapsto> denyByRegionalAdmin (admin_id u) r now c))"
proof (cases "Cattle_findOne cid ''pending_regional_review''
             (if role u = ''regional_admin'' then Some (assignedRegion_state u) else None) d")
  case None
  then show ?thesis using assms by (simp add: denyCattleByRegionalAdmin_def)
next
  case (Some c)
  show ?thesis
    unfolding denyCattleByRegionalAdmin_def snd_asyncHandler Some option.case if_not_P [OF assms]
    apply (rule await_kept [where p = cattles])
     apply (drule updateStatistics_frame, simp)
    apply (rule await_kept [where p = cattles])
     apply (drule notifyOwner_frame, simp)
    apply simp
    done
qed

lemma deny_no_reason:
  assumes "falsy reason"
  shows "denyCattleByRegionalAdmin u cid reason now d = ((400, ''Denial reason is required''), d)"
  using assms by (simp add: denyCattleByRegionalAdmin_def asyncHandler_def falsy_def split: option.splits)

lemma approve_cattles:
  "cattles (snd (approveCattleByMAdmin u cid now d)) =
     (case Cattle_findOne cid ''forwarded_to_m_admin''
             (if role u = ''m_admin'' then Some (assignedRegion_state u) else None) d of
        None \<Rightarrow> cattles d
      | Some c \<Rightarrow> (cattles d)(cid \<mapsto> approve (admin_id u) now c))"
proof (cases "Cattle_findOne cid ''forwarded_to_m_admin''
             (if role u = ''m_admin'' then Some (assignedRegion_state u) else None) d")
  case None
  then show ?thesis by (simp add: approveCattleByMAdmin_def)
next
  case (Some c)
  show ?thesis
    unfolding approveCattleByMAdmin_def snd_asyncHandler Some option.case
    apply (rule await_kept [where p = cattles])
     apply (drule updateStatistics_frame, simp)
    apply (rule await_kept [where p = cattles])
     apply (drule notifyOwner_frame, simp)
    apply simp
    done
qed

lemma reject_cattles:
  assumes "r \<noteq> []"
  shows "cattles (snd (rejectCattleByMAdmin u cid (Some r) now d)) =
     (case Cattle_findOne cid ''forwarded_to_m_admin''
             (if role u = ''m_admin'' then Some (assignedRegion_state u) else None) d of
        None \<Rightarrow> cattles d
      | Some c \<Rightarrow> (cattles d)(cid \<mapsto> reject (admin_id u) r now c))"
proof (cases "Cattle_findOne cid ''forwarded_to_m_admin''
             (if role u = ''m_admin'' then Some (assignedRegion_state u) else None) d")
  case None
  then show ?thesis using assms by (simp add: rejectCattleByMAdmin_def)
next
  case (Some c)
  show ?thesis
    unfolding rejectCattleByMAdmin_def snd_asyncHandler Some option.case if_not_P [OF assms]
    apply (rule await_kept [where p = cattles])
     apply (drule updateStatistics_frame, simp)
    apply (rule await_kept [where p = cattles])
     apply (drule notifyOwner_frame, simp)
    apply simp
    done
qed

lemma reject_no_reason:
  assumes "falsy reason"
  shows "rejectCattleByMAdmin u cid reason now d = ((400, ''Rejection reason is required''), d)"
  using assms by (simp add: rejectCattleByMAdmin_def asyncHandler_def falsy_def split: option.splits)

lemma forward_kept:
  assumes "registry_invariant d"
  shows "registry_invariant (snd (forwardCattleToMAdmin u cid now d))
       \<and> stored_images (snd (forwardCattleToMAdmin u cid now d)) = stored_images d"
  by (rule transition_kept [OF assms forward_cattles])
     (auto simp: status_consistent_def forwardToMAdmin_def)

lemma deny_kept:
  assumes "registry_invariant d"
  shows "registry_invariant (snd (denyCattleByRegionalAdmin u cid reason now d))
       \<and> stored_images (snd (denyCattleByRegionalAdmin u cid reason now d)) = stored_images d"
proof (cases "falsy reason")
  case True
  then show ?thesis using assms by (simp add: deny_no_reason)
next
  case False
  then obtain r where r: "reason = Some r" "r \<noteq> []" by (auto simp: falsy_def split: option.splits)
  show ?thesis unfolding r(1)
    by (rule transition_kept [OF assms deny_cattles [OF r(2)]])
       (auto simp: status_consistent_def denyByRegionalAdmin_def)
qed

lemma approve_kept:
  assumes "registry_invariant d"
  shows "registry_invariant (snd (approveCattleByMAdmin u cid now d))
       \<and> stored_images (snd (approveCattleByMAdmin u cid now d)) = stored_images d"
  by (rule transition_kept [OF assms approve_cattles])
     (auto simp: status_consistent_def approve_def)

lemma reject_kept:
  assumes "registry_invariant d"
  shows "registry_invariant (snd (rejectCattleByMAdmin u cid reason now d))
       \<and> stored_images (snd (rejectCattleByMAdmin u cid reason now d)) = stored_images d"
proof (cases "falsy reason")
  case True
  then show ?thesis using assms by (simp add: reject_no_reason)
next
  case False
  then obtain r where r: "reason = Some r" "r \<noteq> []" by (auto simp: falsy_def split: option.splits)
  show ?thesis unfolding r(1)
    by (rule transition_kept [OF assms reject_cattles [OF r(2)]])
       (auto simp: status_consistent_def reject_def)
qed

lemma archive_kept:
  assumes "registry_invariant d"
  shows "registry_invariant (snd (archiveCattle uid cid now d))
       \<and> stored_images (snd (archiveCattle uid cid now d)) = stored_images d"
proof (cases "cattles d cid")
  case None
  then show ?thesis using assms by (simp add: archiveCattle_def)
next
  case (Some c)
  from stored_invariant [OF assms Some]
  have "status_consistent (archive uid now c)" and "exact_counts (archive uid now c)"
    by (auto simp: status_consistent_def archive_def exact_counts_def category_counts_def
          totalImages_def)
  then show ?thesis
    using Some assms registry_invariant_update [OF assms, of "archive uid now c" _ cid]
      stored_images_update [OF Some, of "archive uid now c"]
    by (simp add: archiveCattle_def archive_def)
qed

lemma restore_kept:
  assumes "registry_invariant d"
  shows "registry_invariant (snd (restoreCattle uid cid d))
       \<and> stored_images (snd (restoreCattle uid cid d)) = stored_images d"
proof (cases "cattles d cid")
  case None
  then show ?thesis using assms by (simp add: restoreCattle_def)
next
  case (Some c)
  from stored_invariant [OF assms Some]
  have "status_consistent (restore c)" and "exact_counts (restore c)"
    by (auto simp: status_consistent_def restore_def exact_counts_def category_counts_def
          totalImages_def)
  then show ?thesis
    using Some assms registry_invariant_update [OF assms, of "restore c" _ cid]
      stored_images_update [OF Some, of "restore c"]
    by (simp add: restoreCattle_def restore_def)
qed

lemma accept_cattles:
  "cattles (snd (accept fault now this d)) = cattles d
   \<or> (\<exists>c. cattles d (transfer_cattle this) = Some c
          \<and> cattles (snd (accept fault now this d)) =
              (cattles d)(transfer_cattle this \<mapsto>
                 c\<lparr>transferHistory := transferHistory c @ [transfer_id this],
                   owner := toOwner this\<rparr>))"
  by (cases "cattles d (transfer_cattle this)")
     (auto simp: accept_def Let_def saveTransfer_def)

lemma accept_kept:
  assumes "registry_invariant d"
  shows "registry_invariant (snd (accept fault now this d))
       \<and> stored_images (snd (accept fault now this d)) = stored_images d"
proof -
  from accept_cattles [of fault now this d]
  consider (same) "cattles (snd (accept fault now this d)) = cattles d"
    | (moved) c where "cattles d (transfer_cattle this) = Some c"
        "cattles (snd (accept fault now this d)) =
              (cattles d)(transfer_cattle this \<mapsto>
                 c\<lparr>transferHistory := transferHistory c @ [transfer_id this],
                   owner := toOwner this\<rparr>)"
    by blast
  then show ?thesis
  proof cases
    case same
    show ?thesis
      using assms registry_invariant_cong [OF same] stored_images_cong [OF same] by simp
  next
    case moved
    from stored_invariant [OF assms moved(1)]
    have sc: "status_consistent (c\<lparr>transferHistory := transferHistory c @ [transfer_id this],
                                   owner := toOwner this\<rparr>)"
      and ec: "exact_counts (c\<lparr>transferHistory := transferHistory c @ [transfer_id this],
                                owner := toOwner this\<rparr>)"
      by (simp_all add: status_consistent_def exact_counts_def category_counts_def totalImages_def)
    have "registry_invariant (snd (accept fault now this d))"
      by (rule registry_invariant_update [OF assms sc ec moved(2)])
    moreover have "stored_images (snd (accept fault now this d)) = stored_images d"
      by (rule stored_images_update [OF moved(1) _ moved(2)]) simp
    ultimately show ?thesis by simp
  qed
qed

lemma acceptTransferRequest_kept:
  assumes "registry_invariant d"
  shows "registry_invariant (snd (acceptTransferRequest fault now uid tid d))
       \<and> stored_images (snd (acceptTransferRequest fault now uid tid d)) = stored_images d"
proof (cases "find (\<lambda>t. transfer_id t = tid \<and> toOwner t = uid \<and> transfer_status t = ''pending'') (transfers d)")
  case None
  then show ?thesis using assms by (simp add: acceptTransferRequest_def)
next
  case (Some request)
  obtain r d' where acc: "accept fault now request d = (r, d')"
    by (cases "accept fault now request d")
  then have "registry_invariant d' \<and> stored_images d' = stored_images d"
    using accept_kept [OF assms, of fault now request] by simp
  then show ?thesis using Some acc
    by (cases r) (simp_all add: acceptTransferRequest_def)
qed

lemma complete_and_notify_cattles:
  "cattles (snd (complete_and_notify adminId fnd cattle message notes confidence now request d))
     = cattles d
   \<or> (\<exists>cid c. cattle = Some (cid, c)
        \<and> cattles (snd (complete_and_notify adminId fnd cattle message notes confidence now request d))
            = (cattles d)(cid \<mapsto>
                 c\<lparr>identificationHistory :=
                     identificationHistory c @ [(now, adminId, ''image_scan'')]\<rparr>))"
proof -
  define default_message where
    "default_message = (if fnd then ''Cattle identified successfully''
                        else ''No match found in database'')"
  define request1 where
    "request1 = completeWithResult fnd
                  (case cattle of None \<Rightarrow> None | Some (cid, c) \<Rightarrow> Some cid)
                  (case cattle of None \<Rightarrow> None | Some (cid, c) \<Rightarrow> cattleId c)
                  (case confidence of None \<Rightarrow> None | Some n \<Rightarrow> if n = 0 then None else Some n)
                  (case message of None \<Rightarrow> default_message
                   | Some m \<Rightarrow> if m = [] then default_message else m)
                  now request"
  define request2 where
    "request2 = (if falsy notes then request1 else request1\<lparr>adminNotes := notes\<rparr>)"
  define d1 where "d1 = d\<lparr>requests := replaceRequest request2 (requests d)\<rparr>"
  obtain r2 d2 where st: "updateIdentificationStatistics adminId d1 = (r2, d2)"
    by (cases "updateIdentificationStatistics adminId d1")
  from updateIdentificationStatistics_frame [OF st] have c2: "cattles d2 = cattles d"
    by (simp add: d1_def)
  define d3 where
    "d3 = (case cattle of
             None \<Rightarrow> d2
           | Some (cid, c) \<Rightarrow>
               d2\<lparr>cattles := (cattles d2)(cid \<mapsto>
                    c\<lparr>identificationHistory :=
                        identificationHistory c @ [(now, adminId, ''image_scan'')]\<rparr>)\<rparr>)"
  define n where
    "n = \<lparr>recipient = request_user request, recipientModel = ''User'',
          notification_type = (if fnd then ''identification_found''
                               else ''identification_not_found''),
          title = (if fnd then ''Cattle Identified!'' else ''Identification Complete''),
          priority = ''high'', relatedCattle = None\<rparr>"
  obtain r4 d4 where nc: "Notification_create n d3 = (r4, d4)"
    by (cases "Notification_create n d3")
  from Notification_create_frame [OF nc] have c4: "cattles d4 = cattles d3" by simp
  have run: "snd (complete_and_notify adminId fnd cattle message notes confidence now request d) = d2
      \<or> snd (complete_and_notify adminId fnd cattle message notes confidence now request d) = d3
      \<or> snd (complete_and_notify adminId fnd cattle message notes confidence now request d) = d4"
    using st nc
    unfolding complete_and_notify_def Let_def default_message_def request1_def request2_def
      d1_def d3_def n_def
    by (cases r2; cases r4) simp_all
  have c3: "cattles d3 = cattles d
      \<or> (\<exists>cid c. cattle = Some (cid, c)
            \<and> cattles d3 = (cattles d)(cid \<mapsto>
                 c\<lparr>identificationHistory :=
                     identificationHistory c @ [(now, adminId, ''image_scan'')]\<rparr>))"
    using c2 by (cases cattle) (auto simp: d3_def)
  from run c2 c3 c4 show ?thesis by auto
qed

lemma complete_and_notify_kept:
  assumes "registry_invariant d" and "\<And>cid c. cattle = Some (cid, c) \<Longrightarrow> cattles d cid = Some c"
  shows "registry_invariant
           (snd (complete_and_notify adminId fnd cattle message notes confidence now request d))
       \<and> stored_images
           (snd (complete_and_notify adminId fnd cattle message notes confidence now request d))
         = stored_images d"
proof -
  from complete_and_notify_cattles
  consider (same) "cattles (snd (complete_and_notify adminId fnd cattle message notes confidence
                                   now request d)) = cattles d"
    | (history) cid c where "cattle = Some (cid, c)"
        "cattles (snd (complete_and_notify adminId fnd cattle message notes confidence now request d))
            = (cattles d)(cid \<mapsto>
                 c\<lparr>identificationHistory :=
                     identificationHistory c @ [(now, adminId, ''image_scan'')]\<rparr>)"
    by blast
  then show ?thesis
  proof cases
    case same
    show ?thesis
      using assms(1) registry_invariant_cong [OF same] stored_images_cong [OF same] by simp
  next
    case history
    from assms(2) [OF history(1)] have c: "cattles d cid = Some c" .
    from stored_invariant [OF assms(1) c]
    have sc: "status_consistent (c\<lparr>identificationHistory :=
                     identificationHistory c @ [(now, adminId, ''image_scan'')]\<rparr>)"
      and ec: "exact_counts (c\<lparr>identificationHistory :=
                     identificationHistory c @ [(now, adminId, ''image_scan'')]\<rparr>)"
      by (simp_all add: status_consistent_def exact_counts_def category_counts_def totalImages_def)
    have "registry_invariant
           (snd (complete_and_notify adminId fnd cattle message notes confidence now request d))"
      by (rule registry_invariant_update [OF assms(1) sc ec history(2)])
    moreover have "stored_images
           (snd (complete_and_notify adminId fnd cattle message notes confidence now request d))
         = stored_images d"
      by (rule stored_images_update [OF c _ history(2)]) simp
    ultimately show ?thesis by simp
  qed
qed

lemma complete_kept:
  assumes "registry_invariant d"
  shows "registry_invariant
           (snd (completeIdentificationRequest adminId rid found bodyCattleId message notes
                   confidence now d))
       \<and> stored_images
           (snd (completeIdentificationRequest adminId rid found bodyCattleId message notes
                   confidence now d))
         = stored_images d"
proof -
  have none: "registry_invariant
           (snd (complete_and_notify adminId fnd None message notes confidence now request d))
       \<and> stored_images
           (snd (complete_and_notify adminId fnd None message notes confidence now request d))
         = stored_images d" for fnd request
    by (rule complete_and_notify_kept [OF assms]) simp
  have some: "registry_invariant
           (snd (complete_and_notify adminId fnd (Some (cid, c)) message notes confidence now request d))
       \<and> stored_images
           (snd (complete_and_notify adminId fnd (Some (cid, c)) message notes confidence now request d))
         = stored_images d" if "cattles d cid = Some c" for fnd request cid c
    by (rule complete_and_notify_kept [OF assms]) (simp add: that)
  show ?thesis
    unfolding completeIdentificationRequest_def snd_asyncHandler
    using assms none some
    by (auto split: option.splits)
qed

lemma Cattle_create_kept:
  assumes "registry_invariant d" and "status doc = ''transit''"
    and "verification_status doc \<noteq> ''approved''" and "exact_counts doc"
  shows "registry_invariant (snd (Cattle_create cid now rnd env doc d))"
proof (cases "Cattle_validate doc")
  case Nil
  have sc: "status_consistent (presave_deadline env (presave_cattleId now rnd doc))"
    using assms(2,3)
    by (simp add: status_consistent_def presave_deadline_def presave_cattleId_def)
  have ec: "exact_counts (presave_deadline env (presave_cattleId now rnd doc))"
    using assms(4)
    by (simp add: exact_counts_def category_counts_def totalImages_def presave_deadline_def
          presave_cattleId_def)
  have "cattles (snd (Cattle_create cid now rnd env doc d)) =
          (cattles d)(cid \<mapsto> presave_deadline env (presave_cattleId now rnd doc))"
    using Nil by (simp add: Cattle_create_def Let_def)
  from registry_invariant_update [OF assms(1) sc ec this] show ?thesis .
next
  case (Cons e es)
  then show ?thesis using assms(1) by (simp add: Cattle_create_def)
qed

lemma count_error_empty: "count_error label n k = [] \<longleftrightarrow> n = k"
  by (simp add: count_error_def)

lemma validated_counts:
  assumes "handleCattleImageUpload err (Some fs) = None"
  shows "map (\<lambda>field. length (uploaded fs field))
           [''muzzle'', ''face'', ''left'', ''right'', ''fullBodyLeft'', ''fullBodyRight'']
         = [3, 3, 3, 3, 1, 1]"
  using assms
  by (auto simp: handleCattleImageUpload_def validateCattleImages_def Let_def count_error_empty
      split: option.splits if_splits)

lemma prepared_counts:
  assumes "handleCattleImageUpload err (Some fs) = None" and "images doc = prepareImages fs"
  shows "exact_counts doc"
  using validated_counts [OF assms(1)] assms(2)
  by (simp add: exact_counts_def category_counts_def totalImages_def prepareImages_def)

lemma Cattle_create_pending:
  assumes "verification_status doc = ''pending''"
  shows "Cattle_create cid now rnd env doc d = (Inl (ValidationError (Cattle_validate doc)), d)"
proof -
  have "Cattle_validate doc \<noteq> []"
    using assms by (simp add: Cattle_validate_def enum_error_def verification_status_enum_def)
  then show ?thesis by (cases "Cattle_validate doc") (simp_all add: Cattle_create_def)
qed

lemma registerCattle_unchanged: "snd (registerCattle cid now rnd env uid files d) = d"
proof (cases files)
  case None
  then show ?thesis by (simp add: registerCattle_def)
next
  case (Some fs)
  show ?thesis
  proof (cases "fs = [] \<or> users d uid = None")
    case True
    then show ?thesis using Some by (auto simp: registerCattle_def)
  next
    case False
    then obtain user where u: "users d uid = Some user" and fs: "fs \<noteq> []" by auto
    show ?thesis using Some u fs
      by (simp add: registerCattle_def Cattle_create_pending)
  qed
qed

subsection \<open>Answers of the verification handlers\<close>




lemma Notification_create_invalid:
  assumes "Notification_validate n = e # es"
  shows "Notification_create n d = (Inl (ValidationError (e # es)), d)"
  using assms by (simp add: Notification_create_def)







lemma findById_frame [simp]: "Admin_findById aid (d\<lparr>cattles := x\<rparr>) = Admin_findById aid d"
  by (simp add: Admin_findById_def)








subsection \<open>Identification requests\<close>

lemma identification_notification_invalid:
  "Notification_validate
     \<lparr>recipient = x, recipientModel = ''Admin'',
      notification_type = ''identification_request_created'',
      title = ''New Cattle Identification Request'',
      priority = ''normal'', relatedCattle = None\<rparr>
   = [''`identification_request_created` is not a valid enum value for path `type`.'',
      ''`normal` is not a valid enum value for path `priority`.'']"
  by (simp add: Notification_validate_def enum_error_def required_error_def
        recipientModel_enum_def notification_type_enum_def notification_priority_enum_def)

lemma notifyAdmins_identification:
  "notifyAdmins as
     (\<lambda>m. Inr \<lparr>recipient = admin_id m, recipientModel = ''Admin'',
                notification_type = ''identification_request_created'',
                title = ''New Cattle Identification Request'',
                priority = ''normal'', relatedCattle = None\<rparr>) upd d
   = (if as = [] then Inr ()
      else Inl (ValidationError
                  [''`identification_request_created` is not a valid enum value for path `type`.'',
                   ''`normal` is not a valid enum value for path `priority`.'']), d)"
  by (cases as) (simp_all add: Notification_create_invalid [OF identification_notification_invalid])

lemma createIdentificationRequest_run:
  assumes "users d uid = Some account"
    and "Some (generateRequestId now k) \<notin> set (map requestId (requests d))"
  shows "map requestId (requests (snd (createIdentificationRequest rid now k uid True d)))
           = map requestId (requests d) @ [Some (generateRequestId now k)]"
    and "fst (fst (createIdentificationRequest rid now k uid True d))
           = (if Admin_find ''m_admin'' (address_state account) d = [] then 201 else 400)"
  using assms
  by (simp_all add: createIdentificationRequest_def IdentificationRequest_create_def
        presave_requestId_def asyncHandler_def Let_def notifyAdmins_identification Admin_find_def)

lemma complete_unresolved_cattle:
  assumes "find (\<lambda>r. request_id r = rid) (requests d) = Some request"
    and "request_status request = ''pending'' \<or> request_status request = ''processing''"
    and "cattles d cid = None"
  shows "completeIdentificationRequest adminId rid (Some True) (Some cid) message notes confidence now d
           = ((404, ''Cattle not found with provided ID''), d)"
  using assms by (auto simp: completeIdentificationRequest_def asyncHandler_def)

lemma Cattle_create_workflow_default:
  assumes "status doc = ''transit''"
    and "verification_status doc = ''pending_regional_review''"
    and "location_state doc \<noteq> []" and "location_district doc \<noteq> []"
  shows "cattles (snd (Cattle_create cid now rnd env doc d)) cid =
           Some (presave_cattleId now rnd doc
                  \<lparr>turnaroundDeadline :=
                     Some (submittedAt doc + turnaroundHours env * 60 * 60 * 1000)\<rparr>)"
  using assms
  by (simp add: Cattle_create_def Cattle_validate_def enum_error_def required_error_def
        status_enum_def verification_status_enum_def presave_deadline_def presave_cattleId_def
        Let_def)

lemma db2_registry_invariant: "registry_invariant db2"
  by (simp add: registry_invariant_def db2_def db0_def status_consistent_def exact_counts_def
        category_counts_def totalImages_def images14_def cattle10_def cattle11_def cattle12_def)

subsection \<open>The random component of a request id\<close>

lemma digits_10000: "digits 10000 = ''10000''"
  by (simp add: digits.simps digit_char_def)

lemma digits_10001: "digits 10001 = ''10001''"
  by (simp add: digits.simps digit_char_def)

lemma rounded_bounds:
  fixes n q rest m :: nat
  assumes n: "n = q * 16384 + rest" and r: "rest < 16384"
    and lo: "90071992547409920000 \<le> n" and hi: "n < 90080999746664652800"
    and m: "m = (if rest < 8192 then q else if 8192 < rest then q + 1
                 else if even q then q else q + 1)"
  shows "5497558138880000 \<le> m \<and> m < 5498107894693888"
proof -
  have q_lo: "5497558138880000 \<le> q" using n r lo by arith
  have q_hi: "q < 5498107894693888" using n hi by arith
  have m_lo: "q \<le> m" using m by simp
  have m_hi: "m < 5498107894693888"
  proof (cases "rest < 8192")
    case True
    then show ?thesis using m q_hi by simp
  next
    case False
    then have "q < 5498107894693887" using n hi by arith
    moreover have "m \<le> q + 1" using m by simp
    ultimately show ?thesis by arith
  qed
  show ?thesis using q_lo m_lo m_hi by arith
qed

lemma rounded_up:
  fixes n q rest m :: nat
  assumes n: "n = q * 16384 + rest" and r: "rest < 16384"
    and lo: "90080999746664652800 \<le> n" and hi: "n < 90080999746664660992"
    and m: "m = (if rest < 8192 then q else if 8192 < rest then q + 1
                 else if even q then q else q + 1)"
  shows "m = 5498107894693888"
proof -
  have q: "q = 5498107894693887" using n r lo hi by arith
  then have "8192 \<le> rest" using n lo by arith
  moreover have "odd q" unfolding q by simp
  ultimately show ?thesis using m q by auto
qed

lemma floor_random_unfold:
  "floor_random_plus_10000 k =
     (if (90071992547409920000 + k) mod 16384 < 8192 then (90071992547409920000 + k) div 16384
      else if 8192 < (90071992547409920000 + k) mod 16384
           then (90071992547409920000 + k) div 16384 + 1
      else if even ((90071992547409920000 + k) div 16384)
           then (90071992547409920000 + k) div 16384
      else (90071992547409920000 + k) div 16384 + 1) div 549755813888"
  by (simp add: floor_random_plus_10000_def Let_def)

lemma floor_random_low:
  assumes "k < 2 ^ 53 - 2 ^ 13"
  shows "floor_random_plus_10000 k = 10000"
proof -
  define n where "n = 90071992547409920000 + k"
  define q where "q = n div 16384"
  define rest where "rest = n mod 16384"
  define m where "m = (if rest < 8192 then q else if 8192 < rest then q + 1
                       else if even q then q else q + 1)"
  have "n = q * 16384 + rest" "rest < 16384" by (simp_all add: q_def rest_def)
  moreover have "90071992547409920000 \<le> n" "n < 90080999746664652800"
    using assms by (simp_all add: n_def)
  ultimately have "5497558138880000 \<le> m \<and> m < 5498107894693888"
    using rounded_bounds [of n q rest m] m_def by blast
  then have "m div 549755813888 = 10000" by arith
  then show ?thesis
    unfolding floor_random_unfold m_def rest_def q_def n_def .
qed

lemma floor_random_high:
  assumes "2 ^ 53 - 2 ^ 13 \<le> k" and "k < 2 ^ 53"
  shows "floor_random_plus_10000 k = 10001"
proof -
  define n where "n = 90071992547409920000 + k"
  define q where "q = n div 16384"
  define rest where "rest = n mod 16384"
  define m where "m = (if rest < 8192 then q else if 8192 < rest then q + 1
                       else if even q then q else q + 1)"
  have "n = q * 16384 + rest" "rest < 16384" by (simp_all add: q_def rest_def)
  moreover have "90080999746664652800 \<le> n" "n < 90080999746664660992"
    using assms by (simp_all add: n_def)
  ultimately have "m = 5498107894693888"
    using rounded_up [of n q rest m] m_def by blast
  then have "m div 549755813888 = 10001" by simp
  then show ?thesis
    unfolding floor_random_unfold m_def rest_def q_def n_def .
qed

lemma random_component:
  assumes "k < 2 ^ 53"
  shows "padStart 4 (CHR ''0'') (digits (floor_random_plus_10000 k)) =
           (if k < 2 ^ 53 - 2 ^ 13 then ''10000'' else ''10001'')"
proof (cases "k < 2 ^ 53 - 2 ^ 13")
  case True
  then show ?thesis
    using floor_random_low [OF True] by (simp add: digits_10000 padStart_def)
next
  case False
  then have "2 ^ 53 - 2 ^ 13 \<le> k" by simp
  from floor_random_high [OF this assms] False show ?thesis
    by (simp add: digits_10001 padStart_def)
qed

lemma Number_toString_example: "Number_toString 1730600000123 = ''1730600000123''"
  by (simp add: Number_toString_def digits.simps digit_char_def)

section \<open>Claims\<close>

text \<open>
  C1. Accepting a pending transfer is not all-or-nothing. When every database call
  succeeds and the cattle exists, \<open>accept\<close> returns the request marked \<open>accepted\<close> and the
  database holds all of its writes: the transfer id appended to the cattle's
  \<open>transferHistory\<close>, the cattle's \<open>owner\<close> set to \<open>toOwner\<close>, the cattle pulled from
  the holdings of the cattle's previous owner and added to those of \<open>toOwner\<close>, and the
  request stored as accepted. The writes are separate and in this order, with no
  transaction: when call \<open>k\<close> fails, the method throws and the writes of the calls
  before \<open>k\<close> stay in the database.
\<close>

theorem accept_applies_writes_in_order:
  assumes "transfer_status this = ''pending''"
    and "cattles d (transfer_cattle this) = Some c"
    and "fromOwner this \<noteq> toOwner this"
  shows
    "(let cid = transfer_cattle this;
          this1 = this\<lparr>transfer_status := ''accepted'', respondedAt := Some now,
                          completedAt := Some now\<rparr>;
          c1 = c\<lparr>transferHistory := transferHistory c @ [transfer_id this],
                 owner := toOwner this\<rparr>;
          d1 = d\<lparr>cattles := (cattles d)(cid \<mapsto> c1)\<rparr>;
          d2 = d1\<lparr>users := pull (owner c) cid (users d)\<rparr>;
          d3 = d2\<lparr>users := addToSet (toOwner this) cid (pull (owner c) cid (users d))\<rparr>;
          d4 = d3\<lparr>transfers := replaceTransfer this1 (transfers d)\<rparr>
      in accept None now this d = (Inr this1, d4)
       \<and> accept (Some 0) now this d = (Inl MongoError, d)
       \<and> accept (Some 1) now this d = (Inl MongoError, d)
       \<and> accept (Some 2) now this d = (Inl MongoError, d1)
       \<and> accept (Some 3) now this d = (Inl MongoError, d2)
       \<and> accept (Some 4) now this d = (Inl MongoError, d3))"
  using assms by (simp add: accept_def saveTransfer_def Let_def)

theorem accept_applies_writes_in_order_witness:
  "transfer_status transfer100 = ''pending''
   \<and> cattles db0 (transfer_cattle transfer100) = Some cattle10
   \<and> fromOwner transfer100 \<noteq> toOwner transfer100
   \<and> fst (accept None 5000 transfer100 db0)
       = Inr (transfer100\<lparr>transfer_status := ''accepted'', respondedAt := Some 5000,
                            completedAt := Some 5000\<rparr>)
   \<and> map_option owner (cattles (snd (accept None 5000 transfer100 db0)) 10) = Some 2
   \<and> map_option transferHistory (cattles (snd (accept None 5000 transfer100 db0)) 10) = Some [100]
   \<and> map_option user_cattle (users (snd (accept None 5000 transfer100 db0)) 1) = Some []
   \<and> map_option user_cattle (users (snd (accept None 5000 transfer100 db0)) 2) = Some [10]
   \<and> map transfer_status (transfers (snd (accept None 5000 transfer100 db0))) = [''accepted'']"
  using accept_applies_writes_in_order [of transfer100 db0 cattle10 5000]
  by (simp add: Let_def db0_def transfer100_def cattle10_def user1_def user2_def
        pull_def addToSet_def replaceTransfer_def)

text \<open>
  The claim as stated fails: in \<open>db0\<close>, user 2 accepts request 100 and the \<open>$pull\<close> on
  the old owner (call 2) fails. The response is an error, yet cattle 10 now names user 2
  as its owner, user 1 still holds it, user 2 does not, and the request is still pending.
\<close>

theorem accept_partial_failure_counterexample:
  "fst (acceptTransferRequest (Some 2) 5000 2 100 db0) = (500, ''database error'')
   \<and> snd (acceptTransferRequest (Some 2) 5000 2 100 db0) \<noteq> db0
   \<and> map_option owner (cattles (snd (acceptTransferRequest (Some 2) 5000 2 100 db0)) 10) = Some 2
   \<and> map_option user_cattle (users (snd (acceptTransferRequest (Some 2) 5000 2 100 db0)) 1) = Some [10]
   \<and> map_option user_cattle (users (snd (acceptTransferRequest (Some 2) 5000 2 100 db0)) 2) = Some []
   \<and> map transfer_status (transfers (snd (acceptTransferRequest (Some 2) 5000 2 100 db0))) = [''pending'']"
proof -
  have run: "acceptTransferRequest (Some 2) 5000 2 100 db0 =
      ((500, ''database error''),
       db0\<lparr>cattles := [10 \<mapsto> cattle10\<lparr>transferHistory := [100], owner := 2\<rparr>]\<rparr>)"
    by (simp add: acceptTransferRequest_def accept_def asyncHandler_def db0_def transfer100_def
          cattle10_def)
  have changed: "db0\<lparr>cattles := [10 \<mapsto> cattle10\<lparr>transferHistory := [100], owner := 2\<rparr>]\<rparr> \<noteq> db0"
  proof
    assume "db0\<lparr>cattles := [10 \<mapsto> cattle10\<lparr>transferHistory := [100], owner := 2\<rparr>]\<rparr> = db0"
    then have "cattles (db0\<lparr>cattles := [10 \<mapsto> cattle10\<lparr>transferHistory := [100], owner := 2\<rparr>]\<rparr>) 10
               = cattles db0 10"
      by simp
    then show False by (simp add: db0_def cattle10_def)
  qed
  show ?thesis
    unfolding run using changed
    by (simp add: db0_def user1_def user2_def transfer100_def cattle10_def)
qed

text \<open>
  C2. With requests served one at a time, no cattle ever gets a second pending
  transfer: each of Initiate, Accept, Reject and Cancel keeps the invariant. When the
  caller's active cattle already has a pending request, Initiate leaves the database
  unchanged and fails: with 404 when the new owner named in the body does not exist
  (that look-up comes first), and otherwise with status 400 (the code has no conflict
  status). The guard is the pre-query alone: the schema has no unique index.
\<close>

theorem one_pending_transfer_when_sequential:
  assumes "at_most_one_pending d"
  shows "at_most_one_pending (snd (initiateCattleTransfer tid now uid cid toOwnerId bodyType d))
       \<and> at_most_one_pending (snd (acceptTransferRequest fault now_a uid_a tid_a d))
       \<and> at_most_one_pending (snd (rejectTransferRequest message now_r uid_r tid_r d))
       \<and> at_most_one_pending (snd (cancelTransferRequest reason now_c uid_c tid_c d))
       \<and> (cattles d cid = Some c \<and> owner c = uid \<and> status c = ''active''
            \<and> pendingTransfers d cid \<noteq> []
          \<longrightarrow> initiateCattleTransfer tid now uid cid toOwnerId bodyType d =
                ((if users d toOwnerId = None then (404, ''New owner not found'')
                  else (400, ''There is already a pending transfer request for this cattle'')),
                 d))"
  using assms
  by (simp add: initiateCattleTransfer_keeps_invariant acceptTransferRequest_keeps_invariant
        rejectTransferRequest_keeps_invariant cancelTransferRequest_keeps_invariant
        initiate_existing_pending)

theorem one_pending_transfer_when_sequential_witness:
  "at_most_one_pending db0
   \<and> cattles db0 10 = Some cattle10 \<and> owner cattle10 = 1 \<and> status cattle10 = ''active''
   \<and> users db0 2 = Some user2 \<and> users db0 99 = None \<and> pendingTransfers db0 10 \<noteq> []
   \<and> initiateCattleTransfer 101 5000 1 10 2 None db0 =
        ((400, ''There is already a pending transfer request for this cattle''), db0)
   \<and> initiateCattleTransfer 101 5000 1 10 99 None db0 = ((404, ''New owner not found''), db0)
   \<and> at_most_one_pending (snd (initiateCattleTransfer 101 5000 1 10 2 None db0))
   \<and> at_most_one_pending (snd (acceptTransferRequest None 5000 1 101 db0))"
  using one_pending_transfer_when_sequential [OF db0_at_most_one_pending,
      where tid = 101 and now = 5000 and uid = 1 and cid = 10 and toOwnerId = 2
        and bodyType = None and fault = None and now_a = 5000 and uid_a = 1 and tid_a = 101
        and c = cattle10]
    one_pending_transfer_when_sequential [OF db0_at_most_one_pending,
      where tid = 101 and now = 5000 and uid = 1 and cid = 10 and toOwnerId = 99
        and bodyType = None and c = cattle10]
    db0_at_most_one_pending
  by (simp add: db0_def cattle10_def pendingTransfers_def transfer100_def)

text \<open>
  The claim as stated fails: in \<open>db1\<close> (no transfer yet) user 1 sends two requests for
  cattle 10, and both have their queries answered before either inserts. Both get 201
  and the cattle has two pending transfers.
\<close>

theorem concurrent_initiate_counterexample:
  "at_most_one_pending db1
   \<and> fst (fst (initiate_interleaved 101 102 5000 1 10 2 db1)) = 201
   \<and> fst (fst (snd (initiate_interleaved 101 102 5000 1 10 2 db1))) = 201
   \<and> map transfer_id (pendingTransfers (snd (snd (initiate_interleaved 101 102 5000 1 10 2 db1))) 10)
       = [101, 102]
   \<and> \<not> at_most_one_pending (snd (snd (initiate_interleaved 101 102 5000 1 10 2 db1)))"
proof -
  have run: "map transfer_id (pendingTransfers (snd (snd (initiate_interleaved 101 102 5000 1 10 2 db1))) 10)
       = [101, 102]"
    by (simp add: initiate_interleaved_def initiate_queries_def initiate_create_def
          asyncHandler_def db1_def db0_def cattle10_def user1_def user2_def pendingTransfers_def
          transferType_enum_def Notification_create_def Notification_validate_def enum_error_def
          required_error_def recipientModel_enum_def notification_type_enum_def
          notification_priority_enum_def)
  then have "length (pendingTransfers (snd (snd (initiate_interleaved 101 102 5000 1 10 2 db1))) 10) = 2"
    using length_map [of transfer_id "pendingTransfers (snd (snd (initiate_interleaved 101 102 5000 1 10 2 db1))) 10"]
    by simp
  then have two: "\<not> at_most_one_pending (snd (snd (initiate_interleaved 101 102 5000 1 10 2 db1)))"
    unfolding at_most_one_pending_def by (metis numeral_le_one_iff semiring_norm(69))
  have ok: "at_most_one_pending db1"
    by (simp add: at_most_one_pending_def pendingTransfers_def db1_def)
  have resp: "fst (fst (initiate_interleaved 101 102 5000 1 10 2 db1)) = 201
      \<and> fst (fst (snd (initiate_interleaved 101 102 5000 1 10 2 db1))) = 201"
    by (simp add: initiate_interleaved_def initiate_queries_def initiate_create_def
          asyncHandler_def db1_def db0_def cattle10_def user1_def user2_def
          transferType_enum_def Notification_create_def Notification_validate_def enum_error_def
          required_error_def recipientModel_enum_def notification_type_enum_def
          notification_priority_enum_def)
  show ?thesis using run two ok resp by simp
qed

text \<open>
  C3. A cattle in a terminal verification state (\<open>approved\<close>, \<open>rejected\<close>,
  \<open>denied_by_regional\<close>) is never changed by Forward, Deny, Approve or Reject,
  whoever calls: each query asks for the one non-terminal state its handler starts
  from, finds nothing, and the handler answers 404 with the database untouched (Deny
  and Reject answer 400 first when the reason is missing). The status is the
  not-found status, not a conflict.
\<close>

theorem terminal_cattle_not_found:
  assumes "cattles d cid = Some c" and "terminal (verification_status c)"
  shows "forwardCattleToMAdmin u cid now d = ((404, ''Cattle not found or already reviewed''), d)
   \<and> denyCattleByRegionalAdmin u cid reason now d =
       ((if falsy reason then (400, ''Denial reason is required'')
         else (404, ''Cattle not found or already reviewed'')), d)
   \<and> approveCattleByMAdmin u cid now d = ((404, ''Cattle not found or not ready for approval''), d)
   \<and> rejectCattleByMAdmin u cid reason now d =
       ((if falsy reason then (400, ''Rejection reason is required'')
         else (404, ''Cattle not found or not ready for rejection'')), d)"
  by (simp add: forwardCattleToMAdmin_def denyCattleByRegionalAdmin_def approveCattleByMAdmin_def
        rejectCattleByMAdmin_def findOne_terminal [OF assms] asyncHandler_def falsy_def
      split: option.split)

theorem terminal_cattle_not_found_witness:
  "cattles db2 10 = Some cattle10 \<and> terminal (verification_status cattle10)
   \<and> forwardCattleToMAdmin regionalOhio 10 5000 db2 =
        ((404, ''Cattle not found or already reviewed''), db2)
   \<and> denyCattleByRegionalAdmin regionalOhio 10 (Some ''unclear photos'') 5000 db2 =
        ((404, ''Cattle not found or already reviewed''), db2)
   \<and> approveCattleByMAdmin superAdmin 10 5000 db2 =
        ((404, ''Cattle not found or not ready for approval''), db2)
   \<and> rejectCattleByMAdmin superAdmin 10 None 5000 db2 =
        ((400, ''Rejection reason is required''), db2)"
  using terminal_cattle_not_found [of db2 10 cattle10 regionalOhio 5000 "Some ''unclear photos''"]
    terminal_cattle_not_found [of db2 10 cattle10 superAdmin 5000 None]
  by (simp add: db2_def cattle10_def terminal_def falsy_def)

text \<open>
  The claim as stated fails: Forward on the approved cattle 10 answers 404, a
  \<open>NotFoundError\<close> and no \<open>ConflictError\<close>; the response is the very one the handler gives
  for an id that no cattle has.
\<close>

theorem terminal_forward_counterexample:
  "cattles db2 10 = Some cattle10 \<and> verification_status cattle10 = ''approved''
   \<and> cattles db2 99 = None
   \<and> fst (forwardCattleToMAdmin regionalOhio 10 5000 db2) =
        (404, ''Cattle not found or already reviewed'')
   \<and> error_kind (fst (forwardCattleToMAdmin regionalOhio 10 5000 db2)) = Some NotFoundError_kind
   \<and> error_kind (fst (forwardCattleToMAdmin regionalOhio 10 5000 db2)) \<noteq> Some ConflictError_kind
   \<and> forwardCattleToMAdmin regionalOhio 10 5000 db2 = forwardCattleToMAdmin regionalOhio 99 5000 db2"
  by (simp add: forwardCattleToMAdmin_def Cattle_findOne_def asyncHandler_def error_kind_def
        db2_def cattle10_def regionalOhio_def newAdmin_def)

text \<open>
  C4. A completion with \<open>found = true\<close> and no \<open>cattleId\<close> in the body skips the
  existence check (\<open>if (found && cattleId)\<close>): request 200 is saved as \<open>completed\<close> with
  \<open>result.found\<close> true and no \<open>result.cattle\<close>, and only then the handler fails, on
  \<open>cattle.cattleId\<close> of \<open>null\<close>. So a stored request can have \<open>result.found\<close> true with
  no cattle reference, against the claim.
\<close>

theorem complete_found_without_cattle:
  "fst (completeIdentificationRequest 8 200 (Some True) None None None None 9000 db3)
     = (500, ''Cannot read properties of null'')
   \<and> map request_status
         (requests (snd (completeIdentificationRequest 8 200 (Some True) None None None None 9000 db3)))
     = [''completed'']
   \<and> map result_found
         (requests (snd (completeIdentificationRequest 8 200 (Some True) None None None None 9000 db3)))
     = [True]
   \<and> map result_cattle
         (requests (snd (completeIdentificationRequest 8 200 (Some True) None None None None 9000 db3)))
     = [None]"
  by (simp add: completeIdentificationRequest_def complete_and_notify_def completeWithResult_def
        updateIdentificationStatistics_def Admin_findById_def Admin_save_def
        asyncHandler_def replaceRequest_def falsy_def Let_def db3_def db0_def request200_def
        identifierOhio_def regionalOhio_def regionalTexas_def identifierTexas_def superAdmin_def
        newAdmin_def)

text \<open>
  C5. \<open>registerCattle\<close> never creates a cattle under the workflow schema: it passes
  \<open>verification.status = 'pending'\<close>, a value of the older schema that the enum of the
  workflow schema does not have, so \<open>Cattle.create\<close> fails validation. Whatever the
  request, the database is unchanged and the answer is 400 or 404; the claim's created
  cattle in state \<open>pending_regional_review\<close> does not exist.
\<close>

theorem registerCattle_creates_nothing:
  "snd (registerCattle cid now rnd env uid files d) = d
   \<and> (fst (fst (registerCattle cid now rnd env uid files d)) = 400
      \<or> fst (fst (registerCattle cid now rnd env uid files d)) = 404)"
proof -
  have "fst (fst (registerCattle cid now rnd env uid files d)) = 400
      \<or> fst (fst (registerCattle cid now rnd env uid files d)) = 404"
    by (simp add: registerCattle_def asyncHandler_def Cattle_create_pending
        split: option.splits)
  then show ?thesis by (simp add: registerCattle_unchanged)
qed

text \<open>
  C6. Every stored cattle keeps this relation: lifecycle \<open>active\<close> implies
  verification \<open>approved\<close>, and verification \<open>approved\<close> implies lifecycle \<open>active\<close> or
  \<open>archive\<close> together with fourteen images in the counts 3, 3, 3, 3, 1, 1 (the
  registry holds only cattle with these counts). Forward, Deny, Approve, Reject,
  Archive, Restore, transfer Accept, identification Complete and Register keep the
  invariant, and so does creating a cattle in transit that is not approved from an
  upload that has passed \<open>handleCattleImageUpload\<close>. None of the handlers changes the
  stored images of any cattle.
\<close>

theorem approved_relation_kept:
  assumes "registry_invariant d"
  shows "(cattles d stored = Some c \<longrightarrow>
            (status c = ''active'' \<longrightarrow> verification_status c = ''approved'')
          \<and> (verification_status c = ''approved'' \<longrightarrow>
                (status c = ''active'' \<or> status c = ''archive'')
              \<and> category_counts c = [3, 3, 3, 3, 1, 1] \<and> totalImages c = 14))
       \<and> registry_invariant (snd (forwardCattleToMAdmin u cid now d))
       \<and> registry_invariant (snd (denyCattleByRegionalAdmin u cid reason now d))
       \<and> registry_invariant (snd (approveCattleByMAdmin u cid now d))
       \<and> registry_invariant (snd (rejectCattleByMAdmin u cid reason now d))
       \<and> registry_invariant (snd (archiveCattle uid cid now d))
       \<and> registry_invariant (snd (restoreCattle uid cid d))
       \<and> registry_invariant (snd (acceptTransferRequest fault now uid tid d))
       \<and> registry_invariant
           (snd (completeIdentificationRequest (admin_id u) rid found bodyCattleId message notes
                   confidence now d))
       \<and> registry_invariant (snd (registerCattle cid now rnd env uid files d))
       \<and> (handleCattleImageUpload err (Some fs) = None \<and> images doc = prepareImages fs
            \<and> status doc = ''transit'' \<and> verification_status doc \<noteq> ''approved''
            \<longrightarrow> registry_invariant (snd (Cattle_create cid now rnd env doc d)))
       \<and> stored_images (snd (forwardCattleToMAdmin u cid now d)) = stored_images d
       \<and> stored_images (snd (denyCattleByRegionalAdmin u cid reason now d)) = stored_images d
       \<and> stored_images (snd (approveCattleByMAdmin u cid now d)) = stored_images d
       \<and> stored_images (snd (rejectCattleByMAdmin u cid reason now d)) = stored_images d
       \<and> stored_images (snd (archiveCattle uid cid now d)) = stored_images d
       \<and> stored_images (snd (restoreCattle uid cid d)) = stored_images d
       \<and> stored_images (snd (acceptTransferRequest fault now uid tid d)) = stored_images d
       \<and> stored_images
           (snd (completeIdentificationRequest (admin_id u) rid found bodyCattleId message notes
                   confidence now d)) = stored_images d"
proof -
  have relation: "cattles d stored = Some c \<longrightarrow>
            (status c = ''active'' \<longrightarrow> verification_status c = ''approved'')
          \<and> (verification_status c = ''approved'' \<longrightarrow>
                (status c = ''active'' \<or> status c = ''archive'')
              \<and> category_counts c = [3, 3, 3, 3, 1, 1] \<and> totalImages c = 14)"
    using stored_invariant [OF assms, of stored c]
    by (simp add: status_consistent_def exact_counts_def)
  have created: "registry_invariant (snd (Cattle_create cid now rnd env doc d))"
    if "handleCattleImageUpload err (Some fs) = None" and "images doc = prepareImages fs"
      and "status doc = ''transit''" and "verification_status doc \<noteq> ''approved''"
    by (rule Cattle_create_kept [OF assms that(3,4) prepared_counts [OF that(1,2)]])
  have registered: "registry_invariant (snd (registerCattle cid now rnd env uid files d))"
    using assms by (simp add: registerCattle_unchanged)
  show ?thesis
    using relation created registered forward_kept [OF assms] deny_kept [OF assms]
      approve_kept [OF assms] reject_kept [OF assms] archive_kept [OF assms]
      restore_kept [OF assms] acceptTransferRequest_kept [OF assms] complete_kept [OF assms]
    by simp
qed

theorem approved_relation_kept_witness:
  "registry_invariant db2
   \<and> cattles db2 10 = Some cattle10 \<and> verification_status cattle10 = ''approved''
   \<and> status cattle10 = ''active'' \<and> category_counts cattle10 = [3, 3, 3, 3, 1, 1]
   \<and> totalImages cattle10 = 14
   \<and> handleCattleImageUpload None (Some files14) = None
   \<and> registry_invariant (snd (approveCattleByMAdmin superAdmin 12 5000 db2))
   \<and> stored_images (snd (approveCattleByMAdmin superAdmin 12 5000 db2)) 12 = Some images14
   \<and> registry_invariant
        (snd (Cattle_create 13 7000 42 None
                (cattle11\<lparr>cattleId := None, images := prepareImages files14\<rparr>) db2))"
proof -
  have upload: "handleCattleImageUpload None (Some files14) = None"
    by (simp add: handleCattleImageUpload_def validateCattleImages_def count_error_def
          uploaded_def files14_def images14_def Let_def)
  from approved_relation_kept [OF db2_registry_invariant,
      where stored = 10 and c = cattle10 and u = superAdmin and cid = 12 and now = 5000]
  have kept: "registry_invariant (snd (approveCattleByMAdmin superAdmin 12 5000 db2))"
    and same: "stored_images (snd (approveCattleByMAdmin superAdmin 12 5000 db2)) = stored_images db2"
    and relation: "cattles db2 10 = Some cattle10 \<longrightarrow>
            (status cattle10 = ''active'' \<longrightarrow> verification_status cattle10 = ''approved'')
          \<and> (verification_status cattle10 = ''approved'' \<longrightarrow>
                (status cattle10 = ''active'' \<or> status cattle10 = ''archive'')
              \<and> category_counts cattle10 = [3, 3, 3, 3, 1, 1] \<and> totalImages cattle10 = 14)"
    by simp_all
  from approved_relation_kept [OF db2_registry_invariant,
      where err = None and fs = files14 and rnd = 42 and env = None and cid = 13 and now = 7000
        and doc = "cattle11\<lparr>cattleId := None, images := prepareImages files14\<rparr>"]
    upload
  have created: "registry_invariant
        (snd (Cattle_create 13 7000 42 None
                (cattle11\<lparr>cattleId := None, images := prepareImages files14\<rparr>) db2))"
    by (simp add: cattle11_def cattle10_def)
  have stored: "cattles db2 10 = Some cattle10" "verification_status cattle10 = ''approved''"
    "status cattle10 = ''active''" "stored_images db2 12 = Some images14"
    by (simp_all add: db2_def cattle10_def cattle12_def stored_images_def)
  show ?thesis
    using db2_registry_invariant kept same relation created stored upload by simp
qed

text \<open>
  The claim as stated fails: the owner archives the approved cattle 10, which has the
  14 images in counts 3, 3, 3, 3, 1, 1. It is still \<open>approved\<close> and its lifecycle status
  is \<open>archive\<close>, not \<open>active\<close>. (The archived document also passes the image-count
  hook of the older schema, so that hook would not have stopped the save.)
\<close>

theorem archived_approved_counterexample:
  "fst (archiveCattle 1 10 6000 db2) = (200, ''Cattle moved to archive'')
   \<and> map_option verification_status (cattles (snd (archiveCattle 1 10 6000 db2)) 10) = Some ''approved''
   \<and> map_option status (cattles (snd (archiveCattle 1 10 6000 db2)) 10) = Some ''archive''
   \<and> map_option totalImages (cattles (snd (archiveCattle 1 10 6000 db2)) 10) = Some 14
   \<and> map_option category_counts (cattles (snd (archiveCattle 1 10 6000 db2)) 10)
       = Some [3, 3, 3, 3, 1, 1]
   \<and> map_option imageCountValidation (cattles (snd (archiveCattle 1 10 6000 db2)) 10)
       = Some None"
  by (simp add: archiveCattle_def archive_def db2_def cattle10_def totalImages_def
        category_counts_def images14_def imageCountValidation_def)




text \<open>
  C8. Archive followed by Restore: the lifecycle status becomes \<open>active\<close> when the
  verification status is \<open>approved\<close> and \<open>transit\<close> otherwise, \<open>archivedAt\<close> and
  \<open>archivedBy\<close> are cleared, and no other field differs from the cattle before.
\<close>

theorem archive_then_restore:
  "restore (archive userId now c) =
     c\<lparr>status := (if verification_status c = ''approved'' then ''active'' else ''transit''),
       archivedAt := None,
       archivedBy := None\<rparr>"
  by (simp add: restore_def archive_def)

text \<open>
  C9. When the cattle of a pending transfer request no longer exists, \<open>accept\<close> (with
  every database call succeeding) still returns the request marked \<open>accepted\<close>, with
  \<open>respondedAt\<close> and \<open>completedAt\<close> set to the current time, and stores it; the cattle and
  user collections are exactly as before. The two owners of a stored request differ,
  since the pre-save hook has rejected any other request at creation.
\<close>

theorem accept_without_cattle:
  assumes "transfer_status this = ''pending''"
    and "cattles d (transfer_cattle this) = None"
    and "fromOwner this \<noteq> toOwner this"
  shows "accept None now this d =
           (Inr (this\<lparr>transfer_status := ''accepted'', respondedAt := Some now,
                       completedAt := Some now\<rparr>),
            d\<lparr>transfers :=
                replaceTransfer
                  (this\<lparr>transfer_status := ''accepted'', respondedAt := Some now,
                          completedAt := Some now\<rparr>)
                  (transfers d)\<rparr>)"
  using assms by (simp add: accept_def saveTransfer_def Let_def)

theorem accept_without_cattle_witness:
  "transfer_status transfer100 = ''pending''
   \<and> cattles (db0\<lparr>cattles := Map.empty\<rparr>) (transfer_cattle transfer100) = None
   \<and> fromOwner transfer100 \<noteq> toOwner transfer100
   \<and> accept None 5000 transfer100 (db0\<lparr>cattles := Map.empty\<rparr>) =
       (Inr (transfer100\<lparr>transfer_status := ''accepted'', respondedAt := Some 5000,
                           completedAt := Some 5000\<rparr>),
        db0\<lparr>cattles := Map.empty,
            transfers := [transfer100\<lparr>transfer_status := ''accepted'', respondedAt := Some 5000,
                                       completedAt := Some 5000\<rparr>]\<rparr>)"
  using accept_without_cattle [of transfer100 "db0\<lparr>cattles := Map.empty\<rparr>" 5000]
  by (simp add: db0_def transfer100_def replaceTransfer_def)

text \<open>
  C10. The generated request id is \<open>IDR-\<close>, the last eight characters of the decimal
  timestamp, and the random component, which is \<open>10000\<close> for every value of
  \<open>Math.random()\<close> below \<open>1 - 2^-40\<close> (\<open>k < 2^53 - 2^13\<close>) and \<open>10001\<close> for the values
  from there up, where the double sum rounds to 10001. A new document without a
  \<open>requestId\<close> gets this id from the pre-save hook, and \<open>createIdentificationRequest\<close>
  stores the request under it when the id is not taken and the requester exists; the
  answer is then 201 if no active, approved \<open>m_admin\<close> is assigned to the requester's
  state and 400 otherwise, because the notification for such an admin fails
  validation. Two requests created in the same millisecond, both with random values
  below \<open>1 - 2^-40\<close>, get the same id.
\<close>

theorem requestId_generated:
  assumes "k < 2 ^ 53"
  shows "generateRequestId now k =
           ''IDR-'' @ slice_last 8 (Number_toString now)
             @ (if k < 2 ^ 53 - 2 ^ 13 then ''10000'' else ''10001'')
       \<and> requestId (presave_requestId now k (doc\<lparr>requestId := None\<rparr>))
           = Some (generateRequestId now k)
       \<and> (users d uid = Some account
            \<and> Some (generateRequestId now k) \<notin> set (map requestId (requests d))
          \<longrightarrow> map requestId (requests (snd (createIdentificationRequest rid now k uid True d)))
                  = map requestId (requests d) @ [Some (generateRequestId now k)]
              \<and> fst (fst (createIdentificationRequest rid now k uid True d))
                  = (if Admin_find ''m_admin'' (address_state account) d = [] then 201 else 400))
       \<and> (k < 2 ^ 53 - 2 ^ 13 \<and> k' < 2 ^ 53 - 2 ^ 13
            \<longrightarrow> generateRequestId now k = generateRequestId now k')"
proof -
  have same: "padStart 4 (CHR ''0'') (digits (floor_random_plus_10000 j)) = ''10000''"
    if "j < 2 ^ 53 - 2 ^ 13" for j
    using that floor_random_low [OF that] by (simp add: digits_10000 padStart_def)
  have id: "generateRequestId now k =
           ''IDR-'' @ slice_last 8 (Number_toString now)
             @ (if k < 2 ^ 53 - 2 ^ 13 then ''10000'' else ''10001'')"
    unfolding generateRequestId_def random_component [OF assms] ..
  have hook: "requestId (presave_requestId now k (doc\<lparr>requestId := None\<rparr>))
           = Some (generateRequestId now k)"
    by (simp add: presave_requestId_def)
  have created: "map requestId (requests (snd (createIdentificationRequest rid now k uid True d)))
                  = map requestId (requests d) @ [Some (generateRequestId now k)]
              \<and> fst (fst (createIdentificationRequest rid now k uid True d))
                  = (if Admin_find ''m_admin'' (address_state account) d = [] then 201 else 400)"
    if "users d uid = Some account"
      and "Some (generateRequestId now k) \<notin> set (map requestId (requests d))"
    using createIdentificationRequest_run [OF that] by simp
  have equal: "generateRequestId now k = generateRequestId now k'"
    if "k < 2 ^ 53 - 2 ^ 13" and "k' < 2 ^ 53 - 2 ^ 13"
    using same [OF that(1)] same [OF that(2)] by (simp add: generateRequestId_def)
  show ?thesis using id hook created equal by blast
qed

theorem requestId_generated_witness:
  "(0::nat) < 2 ^ 53 \<and> (0::nat) < 2 ^ 53 - 2 ^ 13
   \<and> (4503599627370496::nat) < 2 ^ 53 - 2 ^ 13
   \<and> users db0 1 = Some user1
   \<and> Admin_find ''m_admin'' (address_state user1) db0 = [identifierOhio]
   \<and> generateRequestId 1730600000123 0 = ''IDR-0000012310000''
   \<and> requestId (presave_requestId 1730600000123 0 (request200\<lparr>requestId := None\<rparr>))
       = Some ''IDR-0000012310000''
   \<and> map requestId (requests (snd (createIdentificationRequest 201 1730600000123 0 1 True db0)))
       = [Some ''IDR-0000012310000'']
   \<and> fst (fst (createIdentificationRequest 201 1730600000123 0 1 True db0)) = 400
   \<and> fst (fst (createIdentificationRequest 201 1730600000123 0 1 True (db0\<lparr>admins := []\<rparr>))) = 201
   \<and> generateRequestId 1730600000123 4503599627370496 = ''IDR-0000012310000''"
proof -
  have k: "(0::nat) < 2 ^ 53" by simp
  have u: "users db0 1 = Some user1" and fresh: "requests db0 = []"
    and identifiers: "Admin_find ''m_admin'' (address_state user1) db0 = [identifierOhio]"
    by (simp_all add: db0_def Admin_find_def user1_def identifierOhio_def regionalOhio_def
          regionalTexas_def identifierTexas_def superAdmin_def newAdmin_def)
  from requestId_generated [OF k, of 1730600000123 request200 db0 1 user1 201 4503599627370496]
    requestId_generated [OF k, of 1730600000123 request200 "db0\<lparr>admins := []\<rparr>" 1 user1 201
      4503599627370496]
  show ?thesis
    using u fresh identifiers
    by (auto simp: Number_toString_example slice_last_def Admin_find_def)
qed

text \<open>
  The claim as stated fails: for \<open>Math.random() = 1 - 2^-53\<close> (\<open>k = 2^53 - 1\<close>) the sum
  \<open>10000 + Math.random()\<close> is the double 10001, so the random component is \<open>10001\<close>, and
  two requests of the same millisecond get different ids.
\<close>

theorem random_component_counterexample:
  "floor_random_plus_10000 (2 ^ 53 - 1) = 10001
   \<and> generateRequestId 1730600000123 (2 ^ 53 - 1) = ''IDR-0000012310001''
   \<and> generateRequestId 1730600000123 0 = ''IDR-0000012310000''
   \<and> generateRequestId 1730600000123 (2 ^ 53 - 1) \<noteq> generateRequestId 1730600000123 0"
proof -
  have high: "floor_random_plus_10000 (2 ^ 53 - 1) = 10001"
    by (rule floor_random_high) simp_all
  have a: "generateRequestId 1730600000123 (2 ^ 53 - 1) = ''IDR-0000012310001''"
    using random_component [of "2 ^ 53 - 1"]
    by (simp add: generateRequestId_def Number_toString_example slice_last_def)
  have b: "generateRequestId 1730600000123 0 = ''IDR-0000012310000''"
    using random_component [of 0]
    by (simp add: generateRequestId_def Number_toString_example slice_last_def)
  show ?thesis unfolding a b using high by simp
qed

end
